theory Spec2Isabelle
  imports Complex_Main "HOL-Library.Sublist"
begin

section \<open>AttendEase: attendance arithmetic, status buckets, summaries and routes\<close>

text \<open>
  A shallow embedding of the parts of the AttendEase sources that compute with attendance
  records: the frontend utility functions, the two scraping services
  (\<open>UPESScrapingService\<close> and \<open>DynamicAttendanceScrapingService\<close>), the
  \<open>POST /api/attendance/fetch\<close> route handlers and the \<open>POST /api/auth/login\<close> handler.

  Conventions. A JavaScript Number is an IEEE 754 double; it is modelled as the rational
  number that it denotes (type \<open>rat\<close>), and every arithmetic operation of the source is the
  exact operation followed by the rounding \<open>fl\<close> to the nearest double. A count parsed by
  \<open>parseInt\<close> from \<open>\d+\<close> is a \<open>nat\<close> (counts stay below \<open>2^53\<close>, where integer arithmetic on doubles
  is exact), and \<open>null\<close> is \<open>None\<close>. A JavaScript string is a \<open>string\<close> whose characters stand for the
  code units below 256. A function that may throw returns \<open>string + 'a\<close>, with \<open>Inl\<close> carrying
  the message of the thrown \<open>Error\<close>.
\<close>

subsection \<open>Numbers\<close>

text \<open>The position of the leading bit of a positive integer.\<close>

fun log2_nat :: "nat \<Rightarrow> nat" where
  "log2_nat n = (if n < 2 then 0 else Suc (log2_nat (n div 2)))"

declare log2_nat.simps [simp del]

text \<open>The binary exponent of a positive number: \<open>2^e \<le> x < 2^(e+1)\<close>.\<close>

definition expo :: "rat \<Rightarrow> int" where
  "expo x =
     (if 1 \<le> x then int (log2_nat (nat \<lfloor>x\<rfloor>))
      else (let j = log2_nat (nat \<lfloor>1 / x\<rfloor>)
            in if x * 2 ^ j = 1 then - int j else - int j - 1))"

text \<open>The nearest integer, a tie going to the even one.\<close>

definition round_even :: "rat \<Rightarrow> int" where
  "round_even z =
     (let f = \<lfloor>z\<rfloor>; d = z - of_int f
      in if d < 1 / 2 then f else if 1 / 2 < d then f + 1 else if even f then f else f + 1)"

text \<open>
  Rounding to the nearest double: 53 significant bits, ties to even. Overflow, subnormal
  numbers, \<open>NaN\<close>, the infinities and the sign of zero are not modelled; the numbers of this
  development stay far inside the normal range.
\<close>

definition fl :: "rat \<Rightarrow> rat" where
  "fl x =
     (if x = 0 then 0
      else let ulp = 2 powi (expo \<bar>x\<bar> - 52) in of_int (round_even (x / ulp)) * ulp)"

text \<open>
  \<open>parseFloat(x.toFixed(2))\<close> on a double \<open>x\<close>: \<open>toFixed\<close> takes the integer \<open>n\<close> for which \<open>n / 100\<close>
  is nearest to the exact value of \<open>x\<close> (the larger \<open>n\<close> on a tie, the sign set aside), and
  \<open>parseFloat\<close> reads the decimal string back as the nearest double.
\<close>

definition toFixed2 :: "rat \<Rightarrow> rat" where
  "toFixed2 x = (if x < 0 then fl (- (of_int \<lfloor>(- x) * 100 + 1 / 2\<rfloor> / 100))
                 else fl (of_int \<lfloor>x * 100 + 1 / 2\<rfloor> / 100))"

subsection \<open>Frontend utilities\<close>

text \<open>\<open>calculateClassesNeeded\<close> on doubles: each operator rounds. The result of \<open>Math.ceil\<close> and
  \<open>Math.max\<close> is an integer.\<close>

definition calculateClassesNeeded :: "rat \<Rightarrow> rat \<Rightarrow> rat \<Rightarrow> int" where
  "calculateClassesNeeded currentAttended currentTotal targetPercentage =
     (if currentTotal = 0 then 0
      else let currentPercentage = fl (fl (currentAttended / currentTotal) * 100) in
        if currentPercentage \<ge> targetPercentage then 0
        else let classesNeeded =
                   \<lceil>fl (fl (fl (targetPercentage * currentTotal) - fl (currentAttended * 100))
                          / fl (100 - targetPercentage))\<rceil>
             in max 0 classesNeeded)"

record status_info =
  si_status :: string
  si_color :: string
  si_bgColor :: string
  si_textColor :: string
  si_borderColor :: string

definition getAttendanceStatus :: "rat \<Rightarrow> status_info" where
  "getAttendanceStatus percentage =
     (if percentage \<ge> 75 then
        \<lparr>si_status = ''Safe'', si_color = ''green'', si_bgColor = ''bg-green-50'',
         si_textColor = ''text-green-800'', si_borderColor = ''border-green-200''\<rparr>
      else if percentage \<ge> 65 then
        \<lparr>si_status = ''Warning'', si_color = ''yellow'', si_bgColor = ''bg-yellow-50'',
         si_textColor = ''text-yellow-800'', si_borderColor = ''border-yellow-200''\<rparr>
      else
        \<lparr>si_status = ''Critical'', si_color = ''red'', si_bgColor = ''bg-red-50'',
         si_textColor = ''text-red-800'', si_borderColor = ''border-red-200''\<rparr>)"

subsection \<open>Attendance records of the scraping services\<close>

text \<open>
  One per-subject record. \<open>subjectCode\<close> and \<open>faculty\<close> exist in the rows of the dynamic
  service and of the demo datasets only. \<open>UPESScrapingService\<close> leaves \<open>attended\<close> and \<open>total\<close> \<open>null\<close> when the count text has no
  \<open>\d+/\d+\<close>.
\<close>

record attendance_record =
  subject :: string
  subjectCode :: "string option"
  attended :: "nat option"
  total :: "nat option"
  percentage :: rat
  status :: string
  faculty :: "string option"

text \<open>The status cascade inside \<open>UPESScrapingService.scrapeAttendanceData\<close> (both branches of
  the page script carry the same cascade).\<close>

definition upes_row_status :: "rat \<Rightarrow> string" where
  "upes_row_status p =
     (if p \<ge> 75 then ''Good'' else if p \<ge> 65 then ''Warning'' else ''Critical'')"

text \<open>
  One row of \<open>scrapeAttendanceData\<close>, from the captures of its two regular expressions:
  \<open>countMatch\<close> holds the two \<open>parseInt\<close> values of \<open>(\d+)\/(\d+)\<close> and \<open>percentageMatch\<close> the
  decimal number that the text matched by \<open>(\d+(?:\.\d+)?)\<close> writes; \<open>parseFloat\<close> makes it a
  double. The status is derived from the parsed percentage, the stored percentage is the
  parsed one passed through \<open>toFixed(2)\<close>.
\<close>

definition upes_row :: "string \<Rightarrow> (nat \<times> nat) option \<Rightarrow> rat option \<Rightarrow> attendance_record" where
  "upes_row subjectName countMatch percentageMatch =
     (let p = (case percentageMatch of Some v \<Rightarrow> fl v | None \<Rightarrow> 0) in
      \<lparr>subject = subjectName,
       subjectCode = None,
       attended = map_option fst countMatch,
       total = map_option snd countMatch,
       percentage = toFixed2 p,
       status = upes_row_status p,
       faculty = None\<rparr>)"

text \<open>The status cascade at the end of \<open>DynamicAttendanceScrapingService.extractRowData\<close>.\<close>

definition dynamic_row_status :: "rat \<Rightarrow> string" where
  "dynamic_row_status p =
     (if p \<ge> 90 then ''Perfect''
      else if p \<ge> 85 then ''Excellent''
      else if p \<ge> 75 then ''Good''
      else if p \<ge> 65 then ''Warning''
      else ''Critical'')"

subsection \<open>Summaries of the two scraping services\<close>

record summary =
  totalSubjects :: nat
  safeSubjects :: nat
  warningSubjects :: nat
  criticalSubjects :: nat
  overallPercentage :: rat

text \<open>The \<open>summary\<close> object built in \<open>UPESScrapingService.fetchAttendanceReport\<close>.\<close>

definition upes_summary :: "attendance_record list \<Rightarrow> summary" where
  "upes_summary attendanceData =
     \<lparr>totalSubjects = length attendanceData,
      safeSubjects =
        length (filter (\<lambda>a. status a = ''Good'' \<or> percentage a \<ge> 75) attendanceData),
      warningSubjects =
        length (filter (\<lambda>a. status a = ''Warning''
                            \<or> (percentage a \<ge> 65 \<and> percentage a < 75)) attendanceData),
      criticalSubjects =
        length (filter (\<lambda>a. status a = ''Critical'' \<or> percentage a < 65) attendanceData),
      overallPercentage =
        (if length attendanceData > 0
         then toFixed2 (fl (foldl (\<lambda>sum a. fl (sum + percentage a)) 0 attendanceData
                              / of_nat (length attendanceData)))
         else 0)\<rparr>"

text \<open>\<open>sum + subject.total\<close> adds a number; \<open>null\<close> converts to 0.\<close>

definition toNumber :: "nat option \<Rightarrow> nat" where
  "toNumber v = (case v of Some n \<Rightarrow> n | None \<Rightarrow> 0)"

definition digit_char :: "nat \<Rightarrow> char" where
  "digit_char d = char_of (of_char (CHR ''0'') + d)"

fun string_of_nat :: "nat \<Rightarrow> string" where
  "string_of_nat n =
     (if n < 10 then [digit_char n] else string_of_nat (n div 10) @ [digit_char (n mod 10)])"

declare string_of_nat.simps [simp del]

record overall_attendance =
  oa_totalClasses :: nat
  oa_attendedClasses :: nat
  oa_overallPercentage :: rat
  oa_status :: string
  oa_totalSubjects :: nat
  oa_safeSubjects :: nat
  oa_warningSubjects :: nat
  oa_criticalSubjects :: nat
  oa_recommendations :: "string list"

text \<open>\<open>DynamicAttendanceScrapingService.calculateOverallAttendance\<close>, on an array (a \<open>null\<close>
  argument takes the branch of the empty array).\<close>

definition calculateOverallAttendance :: "attendance_record list \<Rightarrow> overall_attendance" where
  "calculateOverallAttendance attendanceData =
     (if length attendanceData = 0 then
        \<lparr>oa_totalClasses = 0, oa_attendedClasses = 0, oa_overallPercentage = 0,
         oa_status = ''No Data'', oa_totalSubjects = 0, oa_safeSubjects = 0,
         oa_warningSubjects = 0, oa_criticalSubjects = 0,
         oa_recommendations = [''No attendance data available'']\<rparr>
      else
        let totalClasses = foldl (\<lambda>sum s. sum + toNumber (total s)) 0 attendanceData;
            attendedClasses = foldl (\<lambda>sum s. sum + toNumber (attended s)) 0 attendanceData;
            overallPct =
              (if totalClasses > 0
               then toFixed2 (fl (fl (of_nat attendedClasses / of_nat totalClasses) * 100))
               else 0);
            safeN = length (filter (\<lambda>s. percentage s \<ge> 75) attendanceData);
            warningN =
              length (filter (\<lambda>s. percentage s \<ge> 65 \<and> percentage s < 75) attendanceData);
            criticalN = length (filter (\<lambda>s. percentage s < 65) attendanceData);
            (st, rec0) =
              (if overallPct \<ge> 90 then
                 (''Excellent'', [''Outstanding attendance! Keep up the great work.''])
               else if overallPct \<ge> 85 then
                 (''Very Good'', [''Great attendance! Continue maintaining regularity.''])
               else if overallPct \<ge> 75 then
                 (''Good'', [''Good attendance. Try to improve further.''])
               else if overallPct \<ge> 65 then
                 (''Warning'',
                  [''Attendance is below optimal. Focus on attending more classes.''])
               else
                 (''Critical'',
                  [''Critical: Attendance is too low. Immediate improvement needed.'']));
            rec1 = (if criticalN > 0
                    then rec0 @ [string_of_nat criticalN @ '' subject(s) need immediate attention.'']
                    else rec0);
            rec2 = (if warningN > 0
                    then rec1 @ [string_of_nat warningN @ '' subject(s) need improvement.'']
                    else rec1)
        in \<lparr>oa_totalClasses = totalClasses, oa_attendedClasses = attendedClasses,
            oa_overallPercentage = overallPct, oa_status = st,
            oa_totalSubjects = length attendanceData, oa_safeSubjects = safeN,
            oa_warningSubjects = warningN, oa_criticalSubjects = criticalN,
            oa_recommendations = rec2\<rparr>)"

subsection \<open>Strings\<close>

text \<open>\<open>String.prototype.includes\<close>.\<close>

fun str_includes :: "string \<Rightarrow> string \<Rightarrow> bool" where
  "str_includes [] pat = (pat = [])"
| "str_includes (c # cs) pat = (prefix pat (c # cs) \<or> str_includes cs pat)"

text \<open>The white space and line terminators of \<open>trim\<close> and of \<open>\s\<close> among the code units below
  256: tab, line feed, vertical tab, form feed, carriage return, space, no-break space.\<close>

definition is_js_space :: "char \<Rightarrow> bool" where
  "is_js_space c = (of_char c \<in> {9, 10, 11, 12, 13, 32, 160 :: nat})"

definition trim :: "string \<Rightarrow> string" where
  "trim s = rev (dropWhile is_js_space (rev (dropWhile is_js_space s)))"

text \<open>\<open>toLowerCase\<close> on code units below 256: the ASCII capitals and the Latin-1 capitals
  (\<open>0xC0\<close> to \<open>0xDE\<close> without the multiplication sign \<open>0xD7\<close>) move up by 32.\<close>

definition lower_char :: "char \<Rightarrow> char" where
  "lower_char c =
     (let n = (of_char c :: nat) in
      if (65 \<le> n \<and> n \<le> 90) \<or> (192 \<le> n \<and> n \<le> 222 \<and> n \<noteq> 215)
      then char_of (n + 32) else c)"

definition toLowerCase :: "string \<Rightarrow> string" where
  "toLowerCase s = map lower_char s"

text \<open>\<open>toUpperCase\<close> on one character, exact on ASCII; a character outside ASCII is returned
  unchanged here.\<close>

definition upper_char :: "char \<Rightarrow> char" where
  "upper_char c =
     (let n = (of_char c :: nat) in if 97 \<le> n \<and> n \<le> 122 then char_of (n - 32) else c)"

definition is_digit :: "char \<Rightarrow> bool" where
  "is_digit c = (let n = (of_char c :: nat) in 48 \<le> n \<and> n \<le> 57)"

subsection \<open>The per-request browser of \<open>UPESScrapingService\<close>\<close>

record profile =
  pr_name :: string
  pr_studentId :: string
  pr_course :: string
  pr_semester :: string
  pr_status :: string
  pr_profilePhoto :: "string option"

text \<open>The two fields of the service object; a handle is a number.\<close>

record service_state =
  browser :: "nat option"
  page :: "nat option"

text \<open>
  What the browser library and the portal do during one request. Each field is the outcome of
  the awaited calls of one step: an error message where the step throws.
  \<open>env_scrape\<close> lists the rows that the page script accepts, each with the captures of the two
  regular expressions.
\<close>

record browser_env =
  env_findChrome :: "string + string option"
  env_launch :: "string + nat"
  env_newPage :: "string + nat"
  env_pageSetup :: "string option"
  env_login :: "string option"
  env_scrape :: "string + (string \<times> (nat \<times> nat) option \<times> rat option) list"
  env_profile :: "string + profile"
  env_pageClose :: "string option"
  env_browserClose :: "string option"
  env_now :: string

definition new_service :: service_state where
  "new_service = \<lparr>browser = None, page = None\<rparr>"

text \<open>\<open>initBrowser\<close>: every failure inside the \<open>try\<close> is rethrown with one fixed message; the
  fields assigned before the failure stay assigned.\<close>

definition initBrowser :: "browser_env \<Rightarrow> service_state \<Rightarrow> (string + unit) \<times> service_state" where
  "initBrowser env s =
     (case env_findChrome env of
        Inl e \<Rightarrow> (Inl ''Browser initialization failed'', s)
      | Inr None \<Rightarrow> (Inl ''Browser initialization failed'', s)
      | Inr (Some chromePath) \<Rightarrow>
          (case env_launch env of
             Inl e \<Rightarrow> (Inl ''Browser initialization failed'', s)
           | Inr b \<Rightarrow>
               (let s1 = s\<lparr>browser := Some b\<rparr> in
                case env_newPage env of
                  Inl e \<Rightarrow> (Inl ''Browser initialization failed'', s1)
                | Inr pg \<Rightarrow>
                    (let s2 = s1\<lparr>page := Some pg\<rparr> in
                     case env_pageSetup env of
                       Some e \<Rightarrow> (Inl ''Browser initialization failed'', s2)
                     | None \<Rightarrow> (Inr (), s2)))))"

text \<open>\<open>login\<close>: whatever is thrown inside the \<open>try\<close>, the rate-limit error included, is
  rethrown as \<open>Login failed: \<close> followed by its message.\<close>

definition login :: "browser_env \<Rightarrow> service_state \<Rightarrow> string + bool" where
  "login env s =
     (if page s = None then Inl (''Login failed: '' @ ''Browser not initialized'')
      else case env_login env of
             Some e \<Rightarrow> Inl (''Login failed: '' @ e)
           | None \<Rightarrow> Inr True)"

definition scrapeAttendanceData :: "browser_env \<Rightarrow> service_state \<Rightarrow> string + attendance_record list" where
  "scrapeAttendanceData env s =
     (if page s = None
      then Inl (''Failed to scrape attendance data: '' @ ''Browser not initialized'')
      else case env_scrape env of
             Inl e \<Rightarrow> Inl (''Failed to scrape attendance data: '' @ e)
           | Inr rows \<Rightarrow> Inr (map (\<lambda>(n, c, p). upes_row n c p) rows))"

definition default_profile :: profile where
  "default_profile =
     \<lparr>pr_name = ''Student Name'', pr_studentId = ''590018413'', pr_course = ''B.Tech CSE'',
      pr_semester = ''Semester 3'', pr_status = ''Active'', pr_profilePhoto = None\<rparr>"

text \<open>\<open>getStudentProfile\<close> never throws: a failure of the page script (or a missing page)
  gives the default profile.\<close>

definition getStudentProfile :: "browser_env \<Rightarrow> service_state \<Rightarrow> profile" where
  "getStudentProfile env s =
     (if page s = None then default_profile
      else case env_profile env of Inl e \<Rightarrow> default_profile | Inr pr \<Rightarrow> pr)"

text \<open>
  \<open>cleanup\<close>: one \<open>try\<close> around both closes, with a \<open>catch\<close> that only logs. A close that throws
  skips every statement after it inside the \<open>try\<close>. \<open>cleanup_browser\<close> is the second \<open>if\<close> of
  the body.
\<close>

definition cleanup_browser :: "browser_env \<Rightarrow> service_state \<Rightarrow> service_state" where
  "cleanup_browser env s =
     (if browser s \<noteq> None then
        (case env_browserClose env of
           Some e \<Rightarrow> s
         | None \<Rightarrow> s\<lparr>browser := None\<rparr>)
      else s)"

definition cleanup :: "browser_env \<Rightarrow> service_state \<Rightarrow> service_state" where
  "cleanup env s =
     (if page s \<noteq> None then
        (case env_pageClose env of
           Some e \<Rightarrow> s
         | None \<Rightarrow> cleanup_browser env (s\<lparr>page := None\<rparr>))
      else cleanup_browser env s)"

subsection \<open>The attendance report\<close>

record metadata =
  md_requestedBy :: string
  md_requestTime :: string
  md_source :: string
  md_version :: string
  md_lastUpdated :: "string option"
  md_note :: "string option"

text \<open>The object under \<open>data\<close> of a fetch response. A field that the object does not have is
  \<open>None\<close>.\<close>

record fetch_data =
  d_success :: bool
  d_timestamp :: "string option"
  d_student :: profile
  d_attendance :: "attendance_record list"
  d_summary :: "summary option"
  d_overallAttendance :: "overall_attendance option"
  d_metadata :: "metadata option"

text \<open>
  \<open>fetchAttendanceReport\<close>: the result (a report or the thrown message) and the state of the
  service after the \<open>finally\<close> block. The user id and the password only reach the portal, whose
  behaviour is \<open>env\<close>.
\<close>

definition fetchAttendanceReport ::
  "browser_env \<Rightarrow> string \<Rightarrow> string \<Rightarrow> service_state \<Rightarrow> (string + fetch_data) \<times> service_state" where
  "fetchAttendanceReport env userId password s =
     (case initBrowser env s of
        (Inl e, s1) \<Rightarrow> (Inl e, cleanup env s1)
      | (Inr u, s1) \<Rightarrow>
          (case login env s1 of
             Inl e \<Rightarrow> (Inl e, cleanup env s1)
           | Inr ok \<Rightarrow>
               (case scrapeAttendanceData env s1 of
                  Inl e \<Rightarrow> (Inl e, cleanup env s1)
                | Inr attendanceData \<Rightarrow>
                    (let prof = getStudentProfile env s1;
                         report =
                           \<lparr>d_success = True,
                            d_timestamp = Some (env_now env),
                            d_student = prof,
                            d_attendance = attendanceData,
                            d_summary = Some (upes_summary attendanceData),
                            d_overallAttendance = None,
                            d_metadata = None\<rparr>
                     in (Inr report, cleanup env s1)))))"

subsection \<open>The fallback dataset\<close>

text \<open>The \<open>profilePhoto\<close> literal of the source is a base64 JPEG of about 2.4 kB; only its head is
  kept here.\<close>

definition fallbackProfilePhoto :: string where
  "fallbackProfilePhoto = ''data:image/jpeg;base64,/9j/4AAQSkZJRgABAQEASABIAAD''"

text \<open>A decimal literal of the source denotes the nearest double.\<close>

definition fallbackAttendance :: "attendance_record list" where
  "fallbackAttendance =
     [\<lparr>subject = ''Discrete Mathematical Structures'', subjectCode = Some ''CSBT301'',
       attended = Some 14, total = Some 16, percentage = fl 87.5, status = ''Good'',
       faculty = Some ''Dr. Amit Kumar''\<rparr>,
      \<lparr>subject = ''Operating Systems'', subjectCode = Some ''CSBT302'',
       attended = Some 17, total = Some 19, percentage = fl 89.47, status = ''Good'',
       faculty = Some ''Prof. Priya Singh''\<rparr>,
      \<lparr>subject = ''Fundamentals of Clinical Research'', subjectCode = Some ''HSBT206'',
       attended = Some 12, total = Some 12, percentage = 100, status = ''Perfect'',
       faculty = Some ''Dr. Rajesh Sharma''\<rparr>,
      \<lparr>subject = ''Elements of AIML'', subjectCode = Some ''CSBT305'',
       attended = Some 19, total = Some 19, percentage = 100, status = ''Perfect'',
       faculty = Some ''Dr. Neha Davis''\<rparr>,
      \<lparr>subject = ''Database Management Systems'', subjectCode = Some ''CSBT303'',
       attended = Some 21, total = Some 23, percentage = fl 91.3, status = ''Excellent'',
       faculty = Some ''Prof. Anil Williams''\<rparr>,
      \<lparr>subject = ''Design and Analysis of Algorithms'', subjectCode = Some ''CSBT304'',
       attended = Some 24, total = Some 24, percentage = 100, status = ''Perfect'',
       faculty = Some ''Dr. Sunita Brown''\<rparr>,
      \<lparr>subject = ''Biomedical Diagnostics'', subjectCode = Some ''HSBT208'',
       attended = Some 5, total = Some 6, percentage = fl 83.33, status = ''Good'',
       faculty = Some ''Dr. Vivek Patel''\<rparr>]"

definition fallbackOverall :: overall_attendance where
  "fallbackOverall =
     \<lparr>oa_totalClasses = 119, oa_attendedClasses = 112, oa_overallPercentage = fl 94.12,
      oa_status = ''Excellent'', oa_totalSubjects = 7, oa_safeSubjects = 7,
      oa_warningSubjects = 0, oa_criticalSubjects = 0,
      oa_recommendations =
        [''Excellent attendance! All subjects above minimum requirement.'',
         ''Continue maintaining regular attendance.'',
         ''You're on track for academic success!'']\<rparr>"

text \<open>\<open>generateFallbackData\<close>; \<open>now\<close> and \<open>nowLocale\<close> are the two renderings of the current
  date.\<close>

definition generateFallbackData :: "string \<Rightarrow> string \<Rightarrow> string \<Rightarrow> string \<Rightarrow> fetch_data" where
  "generateFallbackData now nowLocale userId userEmail =
     (let (studentName, studentId) =
            (if userEmail = ''sudhanshu@student.com'' \<or> str_includes userEmail ''sudhanshu''
             then (''Sudhanshu Ranjan'', ''590018435'')
             else if userEmail = ''demo@student.com''
             then (''Demo Student'', ''500000001'')
             else
               (let emailName = takeWhile (\<lambda>c. c \<noteq> CHR ''@'') userEmail
                in (map upper_char (take 1 emailName)
                      @ filter (\<lambda>c. \<not> is_digit c) (drop 1 emailName),
                    ''590018435'')))
      in \<lparr>d_success = True,
          d_timestamp = None,
          d_student =
            \<lparr>pr_name = studentName, pr_studentId = studentId, pr_course = ''B.Tech CSE'',
             pr_semester = ''Semester 3'', pr_status = ''ACTIVE'',
             pr_profilePhoto = Some fallbackProfilePhoto\<rparr>,
          d_attendance = fallbackAttendance,
          d_summary = None,
          d_overallAttendance = Some fallbackOverall,
          d_metadata =
            Some \<lparr>md_requestedBy = userId, md_requestTime = now,
                  md_source = ''Fallback Demo Data - UPES Portal Structure'',
                  md_version = ''3.1'', md_lastUpdated = Some nowLocale,
                  md_note = Some ''Fallback data shown due to portal connectivity issues''\<rparr>\<rparr>)"

subsection \<open>The handlers of \<open>POST /api/attendance/fetch\<close>\<close>

text \<open>
  Two of the route files call the scraping service: \<open>backend/routes/attendance.js\<close> (it stamps
  its reports with version 1.0) and the route that stamps version 3.0. Both are modelled as
  the handler function reached after \<open>authenticateToken\<close> and the rate limiter have passed the
  request on. \<open>rq_userId\<close> and \<open>rq_email\<close> are the fields of the decoded token.
\<close>

record fetch_request =
  rq_password :: "string option"
  rq_userId :: "string option"
  rq_email :: "string option"

text \<open>The JSON body of a response with its status code. \<open>r_details\<close> is the list of
  validation messages or, in development mode, the message of the caught error (the stack is
  left out).\<close>

record fetch_response =
  r_statusCode :: nat
  r_success :: "bool option"
  r_message :: "string option"
  r_data :: "fetch_data option"
  r_error :: "string option"
  r_code :: "string option"
  r_details :: "string list option"
  r_warning :: "string option"
  r_originalError :: "string option"

definition empty_response :: fetch_response where
  "empty_response =
     \<lparr>r_statusCode = 200, r_success = None, r_message = None, r_data = None, r_error = None,
      r_code = None, r_details = None, r_warning = None, r_originalError = None\<rparr>"

text \<open>\<open>validateAttendanceInput\<close>: a missing field validates as the empty string.\<close>

definition validateAttendanceInput :: "string option \<Rightarrow> string list" where
  "validateAttendanceInput password =
     (let v = (case password of None \<Rightarrow> [] | Some p \<Rightarrow> p) in
      (if v = [] then [''Password is required''] else [])
      @ (if length v < 1 then [''Password cannot be empty''] else []))"

text \<open>\<open>!x\<close> on a string that may be missing.\<close>

definition falsy :: "string option \<Rightarrow> bool" where
  "falsy x = (case x of None \<Rightarrow> True | Some v \<Rightarrow> v = [])"

text \<open>The \<open>if\<close>/\<open>else if\<close> cascade of the \<open>catch\<close> block of the version 1.0 route: status code,
  error code and error message.\<close>

definition error_mapping_v1 :: "string \<Rightarrow> nat \<times> string \<times> string" where
  "error_mapping_v1 message =
     (if str_includes message ''Login failed'' \<or> str_includes message ''credentials'' then
        (401, ''INVALID_CREDENTIALS'',
         ''Invalid login credentials. Please check your user ID and password.'')
      else if str_includes message ''RATE_LIMITED''
              \<or> str_includes message ''too many login attempts'' then
        (429, ''RATE_LIMITED'',
         ''Too many login attempts. Please wait 15-30 minutes before trying again.'')
      else if str_includes message ''timeout'' \<or> str_includes message ''Network'' then
        (504, ''TIMEOUT_ERROR'', ''Request timeout. Please try again later.'')
      else if str_includes message ''Browser'' \<or> str_includes message ''puppeteer'' then
        (503, ''SERVICE_UNAVAILABLE'',
         ''Service temporarily unavailable. Please try again later.'')
      else if str_includes message ''No attendance data found'' then
        (404, ''NO_DATA_FOUND'',
         ''No attendance data found. Please check if data is available on the portal.'')
      else (500, ''FETCH_ERROR'', ''Failed to fetch attendance data''))"

text \<open>
  The version 1.0 handler. \<open>outcome\<close> is what the awaited
  \<open>scrapingService.fetchAttendanceReport(userId, password)\<close> gives: a report, or the message of
  the error it throws. \<open>dev\<close> says that \<open>NODE_ENV\<close> is \<open>development\<close>.
\<close>

definition fetch_v1 :: "bool \<Rightarrow> string \<Rightarrow> fetch_request \<Rightarrow> (string + fetch_data) \<Rightarrow> fetch_response" where
  "fetch_v1 dev now req outcome =
     (let errors = validateAttendanceInput (rq_password req) in
      if errors \<noteq> [] then
        empty_response\<lparr>r_statusCode := 400, r_error := Some ''Invalid input data'',
                         r_details := Some errors, r_code := Some ''VALIDATION_ERROR''\<rparr>
      else if falsy (rq_password req) \<or> falsy (rq_userId req) then
        empty_response\<lparr>r_statusCode := 400,
                         r_error := Some ''User ID and password are required'',
                         r_code := Some ''MISSING_CREDENTIALS''\<rparr>
      else
        (let userId = the (rq_userId req) in
         case outcome of
           Inr attendanceReport \<Rightarrow>
             empty_response\<lparr>r_statusCode := 200, r_success := Some True,
                              r_message := Some ''Attendance data fetched successfully'',
                              r_data := Some (attendanceReport\<lparr>d_metadata :=
                                Some \<lparr>md_requestedBy = userId, md_requestTime = now,
                                      md_source = ''UPES Beta Portal'', md_version = ''1.0'',
                                      md_lastUpdated = None, md_note = None\<rparr>\<rparr>)\<rparr>
         | Inl message \<Rightarrow>
             (let (statusCode, errorCode, errorMessage) = error_mapping_v1 message in
              empty_response\<lparr>r_statusCode := statusCode, r_success := Some False,
                               r_error := Some errorMessage, r_code := Some errorCode,
                               r_details := (if dev then Some [message] else None)\<rparr>)))"

text \<open>The cascade of the version 3.0 route: the same tests, other texts.\<close>

definition error_mapping_v3 :: "string \<Rightarrow> nat \<times> string \<times> string" where
  "error_mapping_v3 message =
     (if str_includes message ''Login failed'' \<or> str_includes message ''credentials'' then
        (401, ''INVALID_CREDENTIALS'',
         ''Invalid UPES login credentials. Please check your Student ID and password.'')
      else if str_includes message ''RATE_LIMITED''
              \<or> str_includes message ''too many login attempts'' then
        (429, ''RATE_LIMITED'',
         ''Too many login attempts on UPES portal. Please wait 15-30 minutes before trying again.'')
      else if str_includes message ''timeout'' \<or> str_includes message ''Network'' then
        (504, ''TIMEOUT_ERROR'',
         ''Request timeout while connecting to UPES Portal. Please try again later.'')
      else if str_includes message ''Browser'' \<or> str_includes message ''puppeteer'' then
        (503, ''SERVICE_UNAVAILABLE'',
         ''Scraping service temporarily unavailable. Please try again later.'')
      else if str_includes message ''No attendance data found'' then
        (404, ''NO_DATA_FOUND'',
         ''No attendance data found on UPES Portal. Please check if data is available.'')
      else (500, ''FETCH_ERROR'', ''Failed to fetch attendance data from UPES Portal''))"

text \<open>The version 3.0 handler: its \<open>catch\<close> block computes the mapping and then answers 200
  with the fallback dataset; of the mapping only the message is sent, as \<open>originalError\<close>.\<close>

definition fetch_v3 :: "string \<Rightarrow> string \<Rightarrow> fetch_request \<Rightarrow> (string + fetch_data) \<Rightarrow> fetch_response" where
  "fetch_v3 now nowLocale req outcome =
     (let errors = validateAttendanceInput (rq_password req) in
      if errors \<noteq> [] then
        empty_response\<lparr>r_statusCode := 400, r_error := Some ''Invalid input data'',
                         r_details := Some errors, r_code := Some ''VALIDATION_ERROR''\<rparr>
      else if falsy (rq_password req) \<or> falsy (rq_userId req) then
        empty_response\<lparr>r_statusCode := 400,
                         r_error := Some ''User ID and password are required'',
                         r_code := Some ''MISSING_CREDENTIALS''\<rparr>
      else
        (let userId = the (rq_userId req);
             userEmail = (if falsy (rq_email req) then userId else the (rq_email req)) in
         case outcome of
           Inr attendanceReport \<Rightarrow>
             empty_response\<lparr>r_statusCode := 200, r_success := Some True,
                              r_message :=
                                Some ''Real attendance data fetched successfully from UPES Portal'',
                              r_data := Some (attendanceReport\<lparr>d_metadata :=
                                Some \<lparr>md_requestedBy = userId, md_requestTime = now,
                                      md_source = ''UPES Beta Portal - Real Time Scraping'',
                                      md_version = ''3.0'', md_lastUpdated = Some nowLocale,
                                      md_note =
                                        Some ''Real attendance data fetched from UPES portal''\<rparr>\<rparr>)\<rparr>
         | Inl message \<Rightarrow>
             (let (statusCode, errorCode, errorMessage) = error_mapping_v3 message;
                  fallbackData = generateFallbackData now nowLocale userId userEmail in
              empty_response\<lparr>r_statusCode := 200, r_success := Some True,
                               r_message := Some
                                 ''Fallback demo data provided (UPES Portal temporarily unavailable)'',
                               r_data := Some fallbackData,
                               r_warning := Some ''Real UPES data unavailable, showing demo data'',
                               r_originalError := Some errorMessage\<rparr>)))"

subsection \<open>The handler of \<open>POST /api/auth/login\<close>\<close>

record login_body =
  lb_userId :: "string option"
  lb_password :: "string option"

text \<open>The character class \<open>[a-zA-Z0-9._@-]\<close>.\<close>

definition userid_char :: "char \<Rightarrow> bool" where
  "userid_char c =
     (let n = (of_char c :: nat) in
      (97 \<le> n \<and> n \<le> 122) \<or> (65 \<le> n \<and> n \<le> 90) \<or> (48 \<le> n \<and> n \<le> 57)
      \<or> c = CHR ''.'' \<or> c = CHR ''_'' \<or> c = CHR ''@'' \<or> c = CHR ''-'')"

text \<open>
  \<open>validateLoginInput\<close>: the messages of the failed validators and the user id as the \<open>trim\<close>
  sanitizer leaves it in the body. \<open>notEmpty\<close> tests the value as sent, the validators after
  \<open>trim\<close> test the trimmed value; a missing field validates as the empty string.
\<close>

definition validateLoginInput :: "login_body \<Rightarrow> string list \<times> string" where
  "validateLoginInput body =
     (let u0 = (case lb_userId body of None \<Rightarrow> [] | Some u \<Rightarrow> u);
          u1 = trim u0;
          pw = (case lb_password body of None \<Rightarrow> [] | Some p \<Rightarrow> p) in
      ((if u0 = [] then [''User ID is required''] else [])
       @ (if 1 \<le> length u1 \<and> length u1 \<le> 50 then []
          else [''User ID must be between 1 and 50 characters''])
       @ (if u1 \<noteq> [] \<and> list_all userid_char u1 then []
          else [''User ID contains invalid characters''])
       @ (if pw = [] then [''Password is required''] else [])
       @ (if length pw < 1 then [''Password is required''] else []),
       u1))"

record token_payload =
  tp_userId :: string
  tp_email :: string
  tp_loginTime :: nat
  tp_sessionId :: string

text \<open>The readings of the clock and of the random generator during one login: the two
  \<open>Date.now()\<close>, the base-36 digits of \<open>Math.random()\<close> after \<open>0.\<close>, and the ISO rendering of the
  date in the response.\<close>

record login_clock =
  lc_loginTime :: nat
  lc_sessionTime :: nat
  lc_random :: string
  lc_iso :: string

record 'tok login_response =
  l_statusCode :: nat
  l_success :: "bool option"
  l_message :: "string option"
  l_token :: "'tok option"
  l_user :: "(string \<times> string) option"
  l_error :: "string option"
  l_code :: "string option"
  l_details :: "string list option"

text \<open>
  The handler, reached after the rate limiter has passed the request on. \<open>generateToken\<close> is
  imported from \<open>../middleware/auth\<close>, which is not among the sources: it is a parameter that
  returns a token or throws.
\<close>

definition login_route ::
  "(token_payload \<Rightarrow> string + 'tok) \<Rightarrow> login_clock \<Rightarrow> login_body \<Rightarrow> 'tok login_response" where
  "login_route generateToken clk body =
     (let (errors, userId) = validateLoginInput body in
      if errors \<noteq> [] then
        \<lparr>l_statusCode = 400, l_success = None, l_message = None, l_token = None,
         l_user = None, l_error = Some ''Invalid input data'',
         l_code = Some ''VALIDATION_ERROR'', l_details = Some errors\<rparr>
      else
        (let password = the (lb_password body);
             sanitizedUserId = toLowerCase (trim userId);
             sanitizedPassword = trim password in
         if sanitizedUserId = [] \<or> sanitizedPassword = [] then
           \<lparr>l_statusCode = 400, l_success = None, l_message = None, l_token = None,
            l_user = None, l_error = Some ''User ID and password are required'',
            l_code = Some ''MISSING_CREDENTIALS'', l_details = None\<rparr>
         else
           (let payload =
                  \<lparr>tp_userId = sanitizedUserId, tp_email = sanitizedUserId,
                   tp_loginTime = lc_loginTime clk,
                   tp_sessionId = ''session_'' @ string_of_nat (lc_sessionTime clk) @ ''_''
                                    @ lc_random clk\<rparr> in
            case generateToken payload of
              Inr token \<Rightarrow>
                \<lparr>l_statusCode = 200, l_success = Some True,
                 l_message = Some ''Login credentials validated'', l_token = Some token,
                 l_user = Some (sanitizedUserId, lc_iso clk), l_error = None,
                 l_code = None, l_details = None\<rparr>
            | Inl e \<Rightarrow>
                \<lparr>l_statusCode = 500, l_success = None, l_message = None, l_token = None,
                 l_user = None, l_error = Some ''Login processing failed'',
                 l_code = Some ''LOGIN_ERROR'', l_details = None\<rparr>)))"

subsection \<open>Example inputs\<close>

text \<open>The browser starts and the login form is submitted, but the portal shows its rate-limit
  text: \<open>login\<close> throws \<open>RATE_LIMITED: ...\<close> inside its own \<open>try\<close>. Both closes succeed.\<close>

definition env_rate_limited :: browser_env where
  "env_rate_limited =
     \<lparr>env_findChrome = Inr (Some ''/usr/bin/chromium''),
      env_launch = Inr 1,
      env_newPage = Inr 2,
      env_pageSetup = None,
      env_login = Some ''RATE_LIMITED: Too many login attempts. Please try again later.'',
      env_scrape = Inr [],
      env_profile = Inr default_profile,
      env_pageClose = None,
      env_browserClose = None,
      env_now = ''2025-01-25T16:44:00.000Z''\<rparr>"

text \<open>No Chrome executable is found: \<open>initBrowser\<close> throws before a browser exists.\<close>

definition env_no_chrome :: browser_env where
  "env_no_chrome =
     \<lparr>env_findChrome = Inr None,
      env_launch = Inr 1,
      env_newPage = Inr 2,
      env_pageSetup = None,
      env_login = None,
      env_scrape = Inr [],
      env_profile = Inr default_profile,
      env_pageClose = None,
      env_browserClose = None,
      env_now = ''2025-01-25T16:44:00.000Z''\<rparr>"

text \<open>Login and scraping succeed with one row; then \<open>page.close()\<close> rejects.\<close>

definition env_page_close_fails :: browser_env where
  "env_page_close_fails =
     \<lparr>env_findChrome = Inr (Some ''/usr/bin/chromium''),
      env_launch = Inr 1,
      env_newPage = Inr 2,
      env_pageSetup = None,
      env_login = None,
      env_scrape = Inr [(''Operating Systems'', Some (17, 19), Some 89.47)],
      env_profile = Inr default_profile,
      env_pageClose = Some ''Protocol error: Connection closed.'',
      env_browserClose = None,
      env_now = ''2025-01-25T16:44:00.000Z''\<rparr>"

text \<open>Two rows as the portal shows them, \<open>14/16\<close> with \<open>87.5%\<close> and \<open>12/12\<close> with \<open>100%\<close>, in the
  form \<open>env_scrape\<close> lists them.\<close>

definition two_subject_rows :: "(string \<times> (nat \<times> nat) option \<times> rat option) list" where
  "two_subject_rows =
     [(''Discrete Mathematical Structures'', Some (14, 16), Some 87.5),
      (''Fundamentals of Clinical Research'', Some (12, 12), Some 100)]"

text \<open>A request of a logged-in student; the login handler puts the user id into both token
  fields.\<close>

definition req_student :: fetch_request where
  "req_student =
     \<lparr>rq_password = Some ''secret'', rq_userId = Some ''500012345'',
      rq_email = Some ''500012345''\<rparr>"

definition clock_sample :: login_clock where
  "clock_sample =
     \<lparr>lc_loginTime = 1737823440000, lc_sessionTime = 1737823440000,
      lc_random = ''k3j9x2m1q'', lc_iso = ''2025-01-25T16:44:00.000Z''\<rparr>"

section \<open>Properties\<close>

subsection \<open>Helper facts\<close>

lemma floor_rat_numeral_div:
  "\<lfloor>numeral a / numeral b :: rat\<rfloor> = numeral a div numeral b"
  by (metis floor_divide_of_int_eq of_int_numeral)

lemma str_includes_sublist: "str_includes s pat \<longleftrightarrow> sublist pat s"
  by (induction s) (simp_all add: sublist_Cons_right)

subsection \<open>Rounding to a double\<close>

lemma log2_nat_bounds: "0 < n \<Longrightarrow> 2 ^ log2_nat n \<le> n \<and> n < 2 ^ Suc (log2_nat n)"
proof (induction n rule: log2_nat.induct)
  case (1 n)
  show ?case
  proof (cases "n < 2")
    case True
    with 1(2) show ?thesis by (simp add: log2_nat.simps [of n])
  next
    case False
    then have "0 < n div 2" by simp
    with 1(1) False have ih: "2 ^ log2_nat (n div 2) \<le> n div 2"
      "n div 2 < 2 ^ Suc (log2_nat (n div 2))" by simp_all
    from False have s: "log2_nat n = Suc (log2_nat (n div 2))"
      by (simp add: log2_nat.simps [of n])
    from ih show ?thesis unfolding s by simp linarith
  qed
qed

lemma pow2_int_Suc: "(2::rat) powi (int j + 1) = 2 ^ Suc j"
proof -
  have "int j + 1 = int (Suc j)" by simp
  then show ?thesis by (simp only: power_int_of_nat)
qed

lemma pow2_neg: "(2::rat) powi (- int j) = 1 / 2 ^ j"
  by (simp add: power_int_minus inverse_eq_divide)

lemma pow2_neg_Suc: "(2::rat) powi (- int j - 1) = 1 / 2 ^ Suc j"
proof -
  have "- int j - 1 = - int (Suc j)" by simp
  then show ?thesis by (simp only: pow2_neg)
qed

lemma of_nat_pow2_le: "2 ^ j \<le> (m::nat) \<Longrightarrow> (2::rat) ^ j \<le> of_nat m"
proof -
  assume "2 ^ j \<le> m"
  then have "(of_nat (2 ^ j) :: rat) \<le> of_nat m" by (simp only: of_nat_le_iff)
  then show ?thesis by simp
qed

lemma of_nat_lt_pow2: "(m::nat) < 2 ^ j \<Longrightarrow> of_nat m + 1 \<le> (2::rat) ^ j"
proof -
  assume "m < 2 ^ j"
  then have "Suc m \<le> 2 ^ j" by simp
  then have "(of_nat (Suc m) :: rat) \<le> of_nat (2 ^ j)" by (simp only: of_nat_le_iff)
  then show ?thesis by simp
qed

lemma expo_bounds:
  assumes "0 < x"
  shows "2 powi expo x \<le> x \<and> x < 2 powi (expo x + 1)"
proof (cases "1 \<le> x")
  case True
  define m where "m = nat \<lfloor>x\<rfloor>"
  define j where "j = log2_nat m"
  have fx: "1 \<le> \<lfloor>x\<rfloor>" using True by simp
  then have m1: "0 < m" by (simp add: m_def)
  have "of_int \<lfloor>x\<rfloor> \<le> x" "x < of_int \<lfloor>x\<rfloor> + 1" by linarith+
  moreover have "(of_nat m :: rat) = of_int \<lfloor>x\<rfloor>"
    unfolding m_def by (rule of_nat_nat) (use fx in linarith)
  ultimately have mx: "of_nat m \<le> x" "x < of_nat m + 1" by simp_all
  from log2_nat_bounds [OF m1] have b: "2 ^ j \<le> m" "m < 2 ^ Suc j"
    by (simp_all add: j_def)
  have b1: "(2::rat) ^ j \<le> of_nat m" using b(1) by (rule of_nat_pow2_le)
  have b2: "of_nat m + 1 \<le> (2::rat) ^ Suc j" using b(2) by (rule of_nat_lt_pow2)
  have e: "expo x = int j" using True by (simp add: expo_def m_def j_def)
  have "(2::rat) ^ j \<le> x" using b1 mx by linarith
  moreover have "x < (2::rat) ^ Suc j" using b2 mx by linarith
  ultimately show ?thesis unfolding e pow2_int_Suc by simp
next
  case False
  with assms have x1: "x < 1" by simp
  define m where "m = nat \<lfloor>1 / x\<rfloor>"
  define j where "j = log2_nat m"
  have inv: "1 < 1 / x" using assms x1 by simp
  then have fx: "1 \<le> \<lfloor>1 / x\<rfloor>" by simp
  then have m1: "0 < m" by (simp add: m_def)
  have "of_int \<lfloor>1 / x\<rfloor> \<le> 1 / x" "1 / x < of_int \<lfloor>1 / x\<rfloor> + 1" by linarith+
  moreover have "(of_nat m :: rat) = of_int \<lfloor>1 / x\<rfloor>"
    unfolding m_def by (rule of_nat_nat) (use fx in linarith)
  ultimately have mx: "of_nat m \<le> 1 / x" "1 / x < of_nat m + 1" by simp_all
  from log2_nat_bounds [OF m1] have b: "2 ^ j \<le> m" "m < 2 ^ Suc j"
    by (simp_all add: j_def)
  have b1: "(2::rat) ^ j \<le> of_nat m" using b(1) by (rule of_nat_pow2_le)
  have b2: "of_nat m + 1 \<le> (2::rat) ^ Suc j" using b(2) by (rule of_nat_lt_pow2)
  have lo: "2 ^ j \<le> 1 / x" using b1 mx by linarith
  have hi: "1 / x < 2 ^ Suc j" using b2 mx by linarith
  have pj: "(0::rat) < 2 ^ j" by simp
  have pS: "(0::rat) < 2 ^ Suc j" by simp
  have xle: "x \<le> 1 / 2 ^ j"
  proof -
    from lo assms have "x * 2 ^ j \<le> 1" by (simp add: pos_le_divide_eq mult.commute)
    then show ?thesis using pj by (simp add: pos_le_divide_eq)
  qed
  have xgt: "1 / 2 ^ Suc j < x"
  proof -
    from hi assms have "1 < x * 2 ^ Suc j" by (simp only: pos_divide_less_eq) (simp add: mult.commute)
    then show ?thesis using pS by (simp only: pos_divide_less_eq)
  qed
  show ?thesis
  proof (cases "x * 2 ^ j = 1")
    case True
    then have e: "expo x = - int j" using x1 by (simp add: expo_def Let_def m_def j_def)
    from True pj have xv: "x = 1 / 2 ^ j" by (simp add: eq_divide_eq)
    have up: "(2::rat) powi (- int j) < 2 powi (- int j + 1)"
      by (rule power_int_strict_increasing) simp_all
    have xp: "x = 2 powi (- int j)" using xv by (simp only: pow2_neg)
    have "2 powi (- int j) \<le> x" using xp by simp
    moreover have "x < 2 powi (- int j + 1)" using xp up by simp
    ultimately show ?thesis unfolding e by simp
  next
    case ne: False
    then have e: "expo x = - int j - 1" using x1 by (simp add: expo_def Let_def m_def j_def)
    have e1: "- int j - 1 + 1 = - int j" by simp
    from xle ne pj have "x < 1 / 2 ^ j" by (simp add: le_less eq_divide_eq)
    with xgt show ?thesis unfolding e e1 pow2_neg pow2_neg_Suc by simp
  qed
qed

lemma pow2_less_cancel:
  assumes "(2::rat) powi a < 2 powi b"
  shows "a < b"
proof (rule ccontr)
  assume "\<not> a < b"
  then have "b \<le> a" by simp
  then have "(2::rat) powi b \<le> 2 powi a" by (rule power_int_increasing) simp
  with assms show False by simp
qed

lemma expo_unique:
  assumes "0 < x" "2 powi e \<le> x" "x < 2 powi (e + 1)"
  shows "expo x = e"
proof -
  from expo_bounds [OF assms(1)] assms(2,3)
  have a: "(2::rat) powi expo x < 2 powi (e + 1)" and b: "(2::rat) powi e < 2 powi (expo x + 1)"
    by linarith+
  have "expo x < e + 1" using a by (rule pow2_less_cancel)
  moreover have "e < expo x + 1" using b by (rule pow2_less_cancel)
  ultimately show ?thesis by simp
qed

lemma round_even_error: "\<bar>of_int (round_even z) - z\<bar> \<le> 1 / 2"
proof -
  have "of_int \<lfloor>z\<rfloor> \<le> z" "z < of_int \<lfloor>z\<rfloor> + 1" by linarith+
  then show ?thesis by (simp add: round_even_def Let_def)
qed

lemma round_even_of_int: "round_even (of_int n) = n"
  by (simp add: round_even_def Let_def)

lemma round_even_eqI:
  assumes "of_int n - 1 / 2 < z" "z < of_int n + 1 / 2"
  shows "round_even z = n"
proof -
  have e: "\<bar>of_int (round_even z) - z\<bar> \<le> 1 / 2" by (rule round_even_error)
  have "\<bar>(of_int (round_even z) :: rat) - of_int n\<bar> < 1" using e assms by linarith
  then have "\<bar>(of_int (round_even z - n) :: rat)\<bar> < 1" by simp
  then have "\<bar>round_even z - n\<bar> < 1"
    by (metis of_int_abs of_int_less_1_iff)
  then show ?thesis by simp
qed

lemma fl_eqI:
  assumes "2 powi e \<le> \<bar>x\<bar>" "\<bar>x\<bar> < 2 powi (e + 1)"
    and "of_int n - 1 / 2 < x / 2 powi (e - 52)" "x / 2 powi (e - 52) < of_int n + 1 / 2"
  shows "fl x = of_int n * 2 powi (e - 52)"
proof -
  have "(0::rat) < 2 powi e" by simp
  with assms(1) have pos: "0 < \<bar>x\<bar>" by linarith
  then have ne: "x \<noteq> 0" by simp
  have ex: "expo \<bar>x\<bar> = e" using pos assms(1,2) by (rule expo_unique)
  have "round_even (x / 2 powi (e - 52)) = n" using assms(3,4) by (rule round_even_eqI)
  then show ?thesis using ne ex by (simp add: fl_def Let_def)
qed

lemma fl_error: "\<bar>fl x - x\<bar> \<le> \<bar>x\<bar> / 2 ^ 53"
proof (cases "x = 0")
  case True
  then show ?thesis by (simp add: fl_def)
next
  case False
  define e where "e = expo \<bar>x\<bar>"
  define u where "u = (2::rat) powi (e - 52)"
  have pos: "0 < \<bar>x\<bar>" using False by simp
  have upos: "0 < u" by (simp add: u_def)
  have lo: "2 powi e \<le> \<bar>x\<bar>" using expo_bounds [OF pos] by (simp add: e_def)
  have fv: "fl x = of_int (round_even (x / u)) * u"
    using False by (simp add: fl_def Let_def e_def u_def)
  have "\<bar>of_int (round_even (x / u)) - x / u\<bar> \<le> 1 / 2" by (rule round_even_error)
  then have "\<bar>of_int (round_even (x / u)) - x / u\<bar> * u \<le> 1 / 2 * u"
    using upos by (simp only: mult_le_cancel_right_pos)
  moreover have "\<bar>of_int (round_even (x / u)) - x / u\<bar> * u = \<bar>fl x - x\<bar>"
  proof -
    have "\<bar>of_int (round_even (x / u)) - x / u\<bar> * u
            = \<bar>(of_int (round_even (x / u)) - x / u) * u\<bar>"
      using upos by (simp add: abs_mult)
    also have "(of_int (round_even (x / u)) - x / u) * u = fl x - x"
      using upos by (simp add: fv left_diff_distrib)
    finally show ?thesis .
  qed
  ultimately have b: "\<bar>fl x - x\<bar> \<le> u / 2" by simp
  have "u = 2 powi e / 2 ^ 52"
  proof -
    have "(2::rat) powi (e - 52) = 2 powi e / 2 powi 52" by (rule power_int_diff) simp
    then show ?thesis by (simp add: u_def)
  qed
  then have "u / 2 = 2 powi e / 2 ^ 53" by simp
  also have "\<dots> \<le> \<bar>x\<bar> / 2 ^ 53" using lo by (simp add: divide_right_mono)
  finally show ?thesis using b by linarith
qed

lemma fl_of_int:
  assumes "\<bar>n\<bar> < 2 ^ 53"
  shows "fl (of_int n) = of_int n"
proof (cases "n = 0")
  case True
  then show ?thesis by (simp add: fl_def)
next
  case False
  define x where "x = (of_int n :: rat)"
  define e where "e = expo \<bar>x\<bar>"
  have pos: "0 < \<bar>x\<bar>" using False by (simp add: x_def)
  have ge1: "1 \<le> \<bar>x\<bar>"
  proof -
    have "1 \<le> \<bar>n\<bar>" using False by simp
    then have "(of_int 1 :: rat) \<le> of_int \<bar>n\<bar>" by (simp only: of_int_le_iff)
    then show ?thesis by (simp add: x_def)
  qed
  have lt: "\<bar>x\<bar> < 2 ^ 53"
  proof -
    have "(of_int \<bar>n\<bar> :: rat) < of_int (2 ^ 53)" using assms by (simp only: of_int_less_iff)
    then show ?thesis by (simp add: x_def)
  qed
  from expo_bounds [OF pos] have lo: "2 powi e \<le> \<bar>x\<bar>" and hi: "\<bar>x\<bar> < 2 powi (e + 1)"
    by (simp_all add: e_def)
  have "(2::rat) powi e < 2 powi 53" using lo lt by simp
  then have e53: "e < 53" by (rule pow2_less_cancel)
  have "(2::rat) powi 0 < 2 powi (e + 1)" using ge1 hi by simp
  then have "0 < e + 1" by (rule pow2_less_cancel)
  then have e0: "0 \<le> e" by simp
  define k where "k = nat (52 - e)"
  have ke: "e - 52 = - int k" using e53 by (simp add: k_def)
  have u: "(2::rat) powi (e - 52) = 1 / 2 ^ k" unfolding ke by (rule pow2_neg)
  have xne: "x \<noteq> 0" using pos by simp
  have fv: "fl x = of_int (round_even (x / 2 powi (e - 52))) * 2 powi (e - 52)"
    using xne by (simp add: fl_def Let_def e_def)
  have "x / 2 powi (e - 52) = of_int (n * 2 ^ k)" by (simp add: u x_def)
  then have "round_even (x / 2 powi (e - 52)) = n * 2 ^ k" by (simp only: round_even_of_int)
  then have "fl x = of_int (n * 2 ^ k) * (1 / 2 ^ k)" unfolding fv u by simp
  then have "fl x = of_int n" by simp
  then show ?thesis by (simp only: x_def)
qed

lemma fl_of_nat: "n < 2 ^ 53 \<Longrightarrow> fl (of_nat n) = of_nat n"
  using fl_of_int [of "int n"] by simp

lemma fl_sign: "x \<le> 0 \<Longrightarrow> fl x \<le> 0" and fl_nonneg: "0 \<le> x \<Longrightarrow> 0 \<le> fl x"
proof -
  have e: "\<bar>fl x - x\<bar> \<le> \<bar>x\<bar> / 2 ^ 53" by (rule fl_error)
  have h: "\<bar>x\<bar> / 2 ^ 53 \<le> \<bar>x\<bar>" by (simp add: field_simps)
  show "x \<le> 0 \<Longrightarrow> fl x \<le> 0" using e h by linarith
  show "0 \<le> x \<Longrightarrow> 0 \<le> fl x" using e h by linarith
qed

lemma fl_08: "fl (4 / 5) = 7205759403792794 / 2 ^ 53"
  using fl_eqI [of "-1" "4 / 5" 7205759403792794] by simp

subsection \<open>Classes needed to reach a target\<close>

lemma fl_upper: "0 \<le> x \<Longrightarrow> fl x \<le> x + x / 2 ^ 53"
  using fl_error [of x] by linarith

lemma fl_lower: "0 \<le> x \<Longrightarrow> x - x / 2 ^ 53 \<le> fl x"
  using fl_error [of x] by linarith

text \<open>A percentage below an integer target stays below it after the two roundings.\<close>

lemma percentage_below:
  fixes a t p :: nat
  assumes "0 < t" "t \<le> 2 ^ 40" "p < 100" "100 * a < p * t"
  shows "fl (fl (of_nat a / of_nat t) * 100) < of_nat p"
proof -
  define r :: rat where "r = of_nat a / of_nat t"
  define u :: rat where "u = 1 / 2 ^ 53"
  have tpos: "(0::rat) < of_nat t" using assms(1) by simp
  have r0: "0 \<le> r" by (simp add: r_def)
  have "100 * a + 1 \<le> p * t" using assms(4) by simp
  then have "(of_nat (100 * a + 1) :: rat) \<le> of_nat (p * t)" by (simp only: of_nat_le_iff)
  then have "100 * of_nat a + 1 \<le> (of_nat p :: rat) * of_nat t" by simp
  then have "(100 * of_nat a + 1) / of_nat t \<le> (of_nat p :: rat)"
    by (simp only: pos_divide_le_eq [OF tpos])
  moreover have "(100 * of_nat a + 1) / (of_nat t :: rat) = 100 * r + 1 / of_nat t"
    by (simp only: r_def add_divide_distrib times_divide_eq_right)
  ultimately have w: "100 * r \<le> of_nat p - 1 / of_nat t" by linarith
  have tb: "(1::rat) / 2 ^ 40 \<le> 1 / of_nat t"
  proof -
    have "(of_nat t :: rat) \<le> of_nat (2 ^ 40)" using assms(2) by (simp only: of_nat_le_iff)
    then have "(of_nat t :: rat) \<le> 2 ^ 40" by simp
    with tpos show ?thesis by (intro divide_left_mono) simp_all
  qed
  have p99: "(of_nat p :: rat) \<le> 99"
  proof -
    have "p \<le> 99" using assms(3) by simp
    then have "(of_nat p :: rat) \<le> of_nat 99" by (simp only: of_nat_le_iff)
    then show ?thesis by simp
  qed
  have "0 \<le> (1::rat) / of_nat t" by simp
  then have w99: "100 * r \<le> 99" using w p99 by linarith
  have f1: "fl r \<le> r + r * u" using fl_upper [OF r0] by (simp add: u_def)
  have f1n: "0 \<le> fl r" using r0 by (rule fl_nonneg)
  define y where "y = fl r * 100"
  have y0: "0 \<le> y" using f1n by (simp add: y_def)
  have yb: "y \<le> 100 * r + 100 * r * u" using f1 by (simp add: y_def algebra_simps)
  have f2: "fl y \<le> y + y * u" using fl_upper [OF y0] by (simp add: u_def)
  have upos: "0 \<le> u" "u \<le> 1" by (simp_all add: u_def)
  have "y * u \<le> (100 * r + 100 * r * u) * u" using yb upos(1) by (rule mult_right_mono)
  also have "\<dots> \<le> (99 + 99 * u) * u"
  proof (rule mult_right_mono)
    have "100 * r * u \<le> 99 * u" using w99 upos(1) by (rule mult_right_mono)
    with w99 show "100 * r + 100 * r * u \<le> 99 + 99 * u" by linarith
  qed (rule upos)
  finally have yu: "y * u \<le> (99 + 99 * u) * u" .
  have ru: "100 * r * u \<le> 99 * u" using w99 upos(1) by (rule mult_right_mono)
  have small: "99 * u + (99 + 99 * u) * u < 1 / 2 ^ 40" unfolding u_def by simp
  have "fl y \<le> 100 * r + 100 * r * u + y * u" using f2 yb by linarith
  also have "\<dots> \<le> 100 * r + (99 * u + (99 + 99 * u) * u)" using ru yu by linarith
  also have "\<dots> < 100 * r + 1 / 2 ^ 40" using small by linarith
  also have "\<dots> \<le> of_nat p" using w tb by linarith
  finally show ?thesis by (simp add: y_def r_def)
qed

lemma ceiling_fl_quotient:
  fixes N D :: int
  assumes "0 < N" "N < 2 ^ 53" "0 < D"
  shows "\<lceil>fl (of_int N / of_int D)\<rceil> = \<lceil>(of_int N / of_int D :: rat)\<rceil>"
proof -
  define q :: rat where "q = of_int N / of_int D"
  define K where "K = \<lceil>q\<rceil>"
  have Dpos: "(0::rat) < of_int D" using assms(3) by simp
  have Npos: "(0::rat) < of_int N" using assms(1) by simp
  have qpos: "0 < q" using Dpos Npos by (simp add: q_def)
  have qD: "q * of_int D = of_int N" using Dpos by (simp add: q_def)
  have Nb: "(of_int N :: rat) < 2 ^ 53"
  proof -
    have "(of_int N :: rat) < of_int (2 ^ 53)" using assms(2) by (simp only: of_int_less_iff)
    then show ?thesis by simp
  qed
  have err: "q / 2 ^ 53 < 1 / of_int D"
  proof -
    have "q / 2 ^ 53 = (of_int N / 2 ^ 53) / of_int D" by (simp add: q_def)
    also have "\<dots> < 1 / of_int D"
      using Nb Dpos by (intro divide_strict_right_mono) simp_all
    finally show ?thesis .
  qed
  have up: "q \<le> of_int K" and lo: "of_int K - 1 < q" unfolding K_def by linarith+
  have fu: "fl q \<le> q + q / 2 ^ 53" using qpos by (intro fl_upper) simp
  have fd: "q - q / 2 ^ 53 \<le> fl q" using qpos by (intro fl_lower) simp
  have "\<lceil>fl q\<rceil> = K"
  proof (cases "q = of_int K")
    case True
    have "q \<le> of_int N"
    proof -
      have "(1::rat) \<le> of_int D" using assms(3) by (simp add: int_one_le_iff_zero_less)
      then have "q * 1 \<le> q * of_int D" using qpos by (intro mult_left_mono) simp_all
      then show ?thesis using qD by simp
    qed
    then have "(of_int K :: rat) < of_int (2 ^ 53)" using True Nb by simp
    then have "K < 2 ^ 53" by (simp only: of_int_less_iff)
    moreover have "0 < K" using qpos True by simp
    ultimately have "\<bar>K\<bar> < 2 ^ 53" by simp
    then have "fl (of_int K) = of_int K" by (rule fl_of_int)
    then show ?thesis using True by simp
  next
    case False
    with up have lt: "q < of_int K" by simp
    have "of_int N < of_int K * (of_int D :: rat)"
      using lt Dpos qD by (metis mult_strict_right_mono)
    then have "(of_int N :: rat) < of_int (K * D)" by simp
    then have "N < K * D" by (simp only: of_int_less_iff)
    then have "N + 1 \<le> K * D" by simp
    then have "(of_int (N + 1) :: rat) \<le> of_int (K * D)" by (simp only: of_int_le_iff)
    then have "of_int N + 1 \<le> of_int K * (of_int D :: rat)" by simp
    then have "(of_int N + 1) / of_int D \<le> (of_int K :: rat)"
      by (simp only: pos_divide_le_eq [OF Dpos])
    moreover have "(of_int N + 1) / (of_int D :: rat) = q + 1 / of_int D"
      by (simp only: q_def add_divide_distrib)
    ultimately have a: "q + 1 / of_int D \<le> of_int K" by linarith
    have "(of_int K - 1) * (of_int D :: rat) < of_int N"
      using lo Dpos qD by (metis mult_strict_right_mono)
    then have "(of_int ((K - 1) * D) :: rat) < of_int N" by simp
    then have "(K - 1) * D < N" by (simp only: of_int_less_iff)
    then have "(K - 1) * D + 1 \<le> N" by simp
    then have "(of_int ((K - 1) * D + 1) :: rat) \<le> of_int N" by (simp only: of_int_le_iff)
    then have "(of_int K - 1) * of_int D + 1 \<le> (of_int N :: rat)" by simp
    then have "((of_int K - 1) * of_int D + 1) / of_int D \<le> q"
      unfolding q_def using Dpos by (intro divide_right_mono) simp_all
    moreover have "((of_int K - 1) * of_int D + 1) / (of_int D :: rat) = of_int K - 1 + 1 / of_int D"
      using Dpos by (simp add: add_divide_distrib)
    ultimately have b: "of_int K - 1 + 1 / of_int D \<le> q" by linarith
    have "of_int K - 1 < fl q" using b fd err by linarith
    moreover have "fl q \<le> of_int K" using a fu err by linarith
    ultimately show ?thesis by (rule ceiling_unique)
  qed
  then show ?thesis by (simp add: q_def K_def)
qed

lemma calculateClassesNeeded_integers:
  fixes a t p :: nat
  assumes "a \<le> t" "t \<le> 2 ^ 40" "0 < p" "p < 100"
  shows "calculateClassesNeeded (of_nat a) (of_nat t) (of_nat p)
           = (if t = 0 \<or> p * t \<le> 100 * a then 0
              else \<lceil>(of_nat p * of_nat t - of_nat a * 100) / (100 - of_nat p :: rat)\<rceil>)"
proof (cases "t = 0")
  case True
  then show ?thesis by (simp add: calculateClassesNeeded_def)
next
  case False
  then have tpos: "0 < t" by simp
  define N :: int where "N = int (p * t) - int (a * 100)"
  define D :: int where "D = 100 - int p"
  have Dpos: "0 < D" using assms(4) by (simp add: D_def)
  have pt: "p * t < 2 ^ 53"
  proof -
    have "p * t \<le> 99 * 2 ^ 40" using assms(2,4) by (intro mult_mono) simp_all
    then show ?thesis by simp
  qed
  have a100: "a * 100 < 2 ^ 53"
  proof -
    have "a * 100 \<le> 2 ^ 40 * 100" using assms(1,2) by (intro mult_mono) simp_all
    then show ?thesis by simp
  qed
  have e1: "fl (of_nat p * of_nat t) = (of_nat p * of_nat t :: rat)"
    using fl_of_nat [OF pt] by simp
  have e2: "fl (of_nat a * 100) = (of_nat a * 100 :: rat)"
    using fl_of_nat [OF a100] by simp
  have Nabs: "\<bar>N\<bar> < 2 ^ 53"
  proof -
    have "int (p * t) < 2 ^ 53" "int (a * 100) < 2 ^ 53"
      using pt a100 by (simp_all only: of_nat_less_numeral_power_cancel_iff)
    moreover have "0 \<le> int (p * t)" "0 \<le> int (a * 100)" by simp_all
    ultimately show ?thesis unfolding N_def by linarith
  qed
  have e3: "fl (of_nat p * of_nat t - of_nat a * 100) = (of_int N :: rat)"
    using fl_of_int [OF Nabs] by (simp add: N_def)
  have "\<bar>D\<bar> < 2 ^ 53" using assms(4) by (simp add: D_def)
  then have "fl (of_int D) = (of_int D :: rat)" by (rule fl_of_int)
  then have e4: "fl (100 - of_nat p) = (of_int D :: rat)" by (simp add: D_def)
  have body: "calculateClassesNeeded (of_nat a) (of_nat t) (of_nat p)
      = (if of_nat p \<le> fl (fl (of_nat a / of_nat t) * 100) then 0
         else max 0 \<lceil>fl (of_int N / of_int D)\<rceil>)"
    using tpos by (simp add: calculateClassesNeeded_def Let_def e1 e2 e3 e4)
  have exact: "(of_nat p * of_nat t - of_nat a * 100) / (100 - of_nat p :: rat)
                 = of_int N / of_int D"
    by (simp add: N_def D_def)
  show ?thesis
  proof (cases "p * t \<le> 100 * a")
    case True
    then have "int (p * t) \<le> int (a * 100)" by (simp only: of_nat_le_iff mult.commute)
    then have "N \<le> 0" unfolding N_def by linarith
    then have "(of_int N :: rat) \<le> 0" by simp
    then have "(of_int N / of_int D :: rat) \<le> 0"
      using Dpos by (simp add: divide_le_0_iff)
    then have "fl (of_int N / of_int D) \<le> 0" by (rule fl_sign)
    then have "\<lceil>fl (of_int N / of_int D)\<rceil> \<le> 0" by (simp add: ceiling_le_zero)
    then show ?thesis using True body by simp
  next
    case nle: False
    then have below: "100 * a < p * t" by simp
    have "fl (fl (of_nat a / of_nat t) * 100) < of_nat p"
      using tpos assms(2,4) below by (rule percentage_below)
    then have b2: "calculateClassesNeeded (of_nat a) (of_nat t) (of_nat p)
                     = max 0 \<lceil>fl (of_int N / of_int D)\<rceil>"
      using body by simp
    from below have "int (a * 100) < int (p * t)" by (simp only: of_nat_less_iff mult.commute)
    then have Npos: "0 < N" unfolding N_def by linarith
    have Nlt: "N < 2 ^ 53" using Nabs by simp
    have c: "\<lceil>fl (of_int N / of_int D)\<rceil> = \<lceil>(of_int N / of_int D :: rat)\<rceil>"
      using Npos Nlt Dpos by (rule ceiling_fl_quotient)
    have "(0::rat) < of_int N / of_int D" using Npos Dpos by simp
    then have "0 < \<lceil>(of_int N / of_int D :: rat)\<rceil>" by simp
    then show ?thesis using b2 c nle False exact by simp
  qed
qed

text \<open>
  C9, as the code has it. For integers \<open>0 \<le> currentAttended \<le> currentTotal \<le> 2^40\<close> and an
  integer target strictly between 0 and 100 (the default 75 among them),
  \<open>calculateClassesNeeded\<close> returns the least non-negative integer \<open>n\<close> with
  \<open>100 * (currentAttended + n) \<ge> targetPercentage * (currentTotal + n)\<close>; it returns 0 when
  \<open>currentTotal\<close> is 0 and when the current percentage already meets the target.
\<close>

theorem calculateClassesNeeded_least:
  fixes a t p :: nat
  assumes "a \<le> t" "t \<le> 2 ^ 40" "0 < p" "p < 100"
  shows "0 \<le> calculateClassesNeeded (of_nat a) (of_nat t) (of_nat p)
       \<and> (of_nat p :: rat)
             * (of_nat t + of_int (calculateClassesNeeded (of_nat a) (of_nat t) (of_nat p)))
           \<le> 100 * (of_nat a + of_int (calculateClassesNeeded (of_nat a) (of_nat t) (of_nat p)))
       \<and> (\<forall>m. 0 \<le> m \<and> (of_nat p :: rat) * (of_nat t + of_int m) \<le> 100 * (of_nat a + of_int m)
              \<longrightarrow> calculateClassesNeeded (of_nat a) (of_nat t) (of_nat p) \<le> m)
       \<and> (t = 0 \<or> p * t \<le> 100 * a
              \<longrightarrow> calculateClassesNeeded (of_nat a) (of_nat t) (of_nat p) = 0)"
proof -
  define A T P :: rat where "A = of_nat a" and "T = of_nat t" and "P = of_nat p"
  define r where "r = calculateClassesNeeded A T P"
  have rv: "r = (if t = 0 \<or> p * t \<le> 100 * a then 0 else \<lceil>(P * T - A * 100) / (100 - P)\<rceil>)"
    unfolding r_def A_def T_def P_def using assms by (rule calculateClassesNeeded_integers)
  have AT: "A \<le> T" using assms(1) by (simp add: A_def T_def)
  have A0: "0 \<le> A" by (simp add: A_def)
  have P0: "0 < P" using assms(3) by (simp add: P_def)
  have d: "0 < 100 - P"
  proof -
    have "(of_nat p :: rat) < of_nat 100" using assms(4) by (simp only: of_nat_less_iff)
    then show ?thesis by (simp add: P_def)
  qed
  have met: "p * t \<le> 100 * a \<longleftrightarrow> P * T \<le> 100 * A"
  proof -
    have "p * t \<le> 100 * a \<longleftrightarrow> (of_nat (p * t) :: rat) \<le> of_nat (100 * a)"
      by (simp only: of_nat_le_iff)
    then show ?thesis by (simp add: A_def T_def P_def)
  qed
  have "0 \<le> r \<and> P * (T + of_int r) \<le> 100 * (A + of_int r)
       \<and> (\<forall>m. 0 \<le> m \<and> P * (T + of_int m) \<le> 100 * (A + of_int m) \<longrightarrow> r \<le> m)
       \<and> (t = 0 \<or> p * t \<le> 100 * a \<longrightarrow> r = 0)"
  proof (cases "t = 0 \<or> p * t \<le> 100 * a")
    case True
    then have r0: "r = 0" using rv by simp
    have "P * T \<le> 100 * A"
    proof (cases "t = 0")
      case True
      with assms(1) show ?thesis by (simp add: A_def T_def)
    next
      case False
      with \<open>t = 0 \<or> p * t \<le> 100 * a\<close> met show ?thesis by simp
    qed
    with r0 show ?thesis by simp
  next
    case False
    then have lt: "100 * A < P * T" using met by simp
    define q where "q = (P * T - A * 100) / (100 - P)"
    have r: "r = \<lceil>q\<rceil>" using rv False by (simp add: q_def)
    have qpos: "0 < q" unfolding q_def using lt d by simp
    have c1: "0 \<le> \<lceil>q\<rceil>" using qpos by simp
    have qd: "q * (100 - P) = P * T - A * 100" unfolding q_def using d by simp
    have "q \<le> of_int \<lceil>q\<rceil>" by simp
    then have "q * (100 - P) \<le> of_int \<lceil>q\<rceil> * (100 - P)"
      using d by (simp only: mult_le_cancel_right_pos)
    then have "P * T - A * 100 \<le> of_int \<lceil>q\<rceil> * (100 - P)" using qd by simp
    then have c2: "P * (T + of_int \<lceil>q\<rceil>) \<le> 100 * (A + of_int \<lceil>q\<rceil>)"
      by (simp add: algebra_simps)
    have c3: "\<lceil>q\<rceil> \<le> m" if "P * (T + of_int m) \<le> 100 * (A + of_int m)" for m
    proof -
      from that have "P * T - A * 100 \<le> of_int m * (100 - P)" by (simp add: algebra_simps)
      then have "q * (100 - P) \<le> of_int m * (100 - P)" using qd by simp
      then have "q \<le> of_int m" using d by (simp only: mult_le_cancel_right_pos)
      then show ?thesis by (simp add: ceiling_le_iff)
    qed
    from r c1 c2 c3 False show ?thesis by auto
  qed
  then show ?thesis unfolding r_def A_def T_def P_def .
qed

text \<open>With 3 of 10 classes attended and the default target 75, 18 more classes are needed:
  21 of 28 is exactly 75 per cent, 20 of 27 is below.\<close>

theorem calculateClassesNeeded_least_witness:
  "(3::nat) \<le> 10 \<and> (10::nat) \<le> 2 ^ 40 \<and> (0::nat) < 75 \<and> (75::nat) < 100
   \<and> calculateClassesNeeded 3 10 75 = 18
   \<and> (75::rat) * (10 + 18) \<le> 100 * (3 + 18)
   \<and> \<not> ((75::rat) * (10 + 17) \<le> 100 * (3 + 17))"
proof -
  have h: "(3::nat) \<le> 10" "(10::nat) \<le> 2 ^ 40" "(0::nat) < 75" "(75::nat) < 100" by simp_all
  note t = calculateClassesNeeded_least [OF h]
  have up: "(75::rat) * (10 + of_int (calculateClassesNeeded 3 10 75))
              \<le> 100 * (3 + of_int (calculateClassesNeeded 3 10 75))"
    using t by simp
  have least: "calculateClassesNeeded 3 10 75 \<le> 18"
    using t [THEN conjunct2, THEN conjunct2, THEN conjunct1, THEN spec, of 18] by simp
  have "18 \<le> calculateClassesNeeded 3 10 75" using up by simp
  with least have "calculateClassesNeeded 3 10 75 = 18" by simp
  then show ?thesis by simp
qed

lemma fl_one_125: "fl (1 / 125) = 4611686018427388 / 2 ^ 59"
  using fl_eqI [of "-7" "1 / 125" 4611686018427388] by simp

lemma fl_percentage_1_125: "fl (4611686018427388 / 2 ^ 59 * 100) = 7205759403792794 / 2 ^ 53"
  using fl_eqI [of "-1" "4611686018427388 / 2 ^ 59 * 100" 7205759403792794] by simp

lemma percentage_1_125: "fl (fl (1 / 125) * 100) = fl (4 / 5)"
  by (simp only: fl_one_125 fl_percentage_1_125 fl_08)

text \<open>
  C9 as stated fails for a target that is not an integer. With 1 of 125 classes attended
  and the target \<open>0.8\<close>, a double slightly above 4/5, the rounded current percentage equals
  the target and the function returns 0, although \<open>100 * 1 < targetPercentage * 125\<close>.
\<close>

theorem fractional_target_counterexample:
  "(0::rat) \<le> 1 \<and> (1::rat) \<le> 125 \<and> 0 < fl (4 / 5) \<and> fl (4 / 5) < 100
   \<and> calculateClassesNeeded 1 125 (fl (4 / 5)) = 0
   \<and> 100 * (1 + 0) < fl (4 / 5) * (125 + 0)"
proof -
  have "calculateClassesNeeded 1 125 (fl (4 / 5)) = 0"
    unfolding calculateClassesNeeded_def Let_def by (simp only: percentage_1_125) simp
  then show ?thesis by (simp add: fl_08)
qed

lemma fl_552: "fl 55.2 = 7768709357214106 / 2 ^ 47"
  using fl_eqI [of 5 "55.2" 7768709357214106] by simp

lemma fl_552_56: "fl (7768709357214106 / 2 ^ 47 * 56) = 6797620687562343 / 2 ^ 41"
  using fl_eqI [of 11 "7768709357214106 / 2 ^ 47 * 56" 6797620687562343] by simp

lemma fl_552_diff: "fl (6797620687562343 / 2 ^ 41 - 0) = 6797620687562343 / 2 ^ 41"
  using fl_eqI [of 11 "6797620687562343 / 2 ^ 41 - 0" 6797620687562343] by simp

lemma fl_100_552: "fl (100 - 7768709357214106 / 2 ^ 47) = 6305039478318694 / 2 ^ 47"
  using fl_eqI [of 5 "100 - 7768709357214106 / 2 ^ 47" 6305039478318694] by simp

lemma fl_552_quotient:
  "fl (6797620687562343 / 2 ^ 41 / (6305039478318694 / 2 ^ 47)) = 4855443348258817 / 2 ^ 46"
  using fl_eqI [of 6 "6797620687562343 / 2 ^ 41 / (6305039478318694 / 2 ^ 47)" 4855443348258817]
  by simp

text \<open>With 0 of 56 classes attended and the target \<open>55.2\<close>, a double slightly above 276/5, the
  rounded quotient is just above 69 and the function returns 70, where 69 meets the
  decimal target.\<close>

lemma decimal_target_off_by_one:
  "calculateClassesNeeded 0 56 (fl 55.2) = 70 \<and> (55.2 :: rat) * (56 + 69) \<le> 100 * (0 + 69)"
proof -
  have z: "fl (fl (0 / 56) * 100) = 0" "fl (0 * 100) = 0" by (simp_all add: fl_def)
  have "calculateClassesNeeded 0 56 (fl 55.2)
          = max 0 \<lceil>fl (fl (fl (fl 55.2 * 56) - 0) / fl (100 - fl 55.2))\<rceil>"
    unfolding calculateClassesNeeded_def Let_def z fl_552 by simp
  also have "\<dots> = max 0 \<lceil>(4855443348258817 / 2 ^ 46 :: rat)\<rceil>"
    by (simp only: fl_552 fl_552_56 fl_552_diff fl_100_552 fl_552_quotient)
  also have "\<dots> = 70"
  proof -
    have "\<lceil>(4855443348258817 / 2 ^ 46 :: rat)\<rceil> = 70" by (rule ceiling_unique) simp_all
    then show ?thesis by simp
  qed
  finally show ?thesis by simp
qed

subsection \<open>Status buckets\<close>

text \<open>
  C1, as the code has it. \<open>getAttendanceStatus\<close>, the cascade of
  \<open>UPESScrapingService.scrapeAttendanceData\<close> and the cascade of
  \<open>DynamicAttendanceScrapingService.extractRowData\<close> agree on the thresholds: the label is
  \<open>Warning\<close> exactly for \<open>65 \<le> p < 75\<close> and \<open>Critical\<close> exactly for \<open>p < 65\<close> in all three. From 75
  on the first says \<open>Safe\<close>, the second \<open>Good\<close>, and the third \<open>Good\<close> below 85, \<open>Excellent\<close> from 85
  and \<open>Perfect\<close> from 90.
\<close>

theorem status_buckets_agree:
  "(si_status (getAttendanceStatus p) = ''Safe'' \<longleftrightarrow> 75 \<le> p)
   \<and> (upes_row_status p = ''Good'' \<longleftrightarrow> 75 \<le> p)
   \<and> (dynamic_row_status p \<in> {''Good'', ''Excellent'', ''Perfect''} \<longleftrightarrow> 75 \<le> p)
   \<and> (dynamic_row_status p = ''Perfect'' \<longleftrightarrow> 90 \<le> p)
   \<and> (dynamic_row_status p = ''Excellent'' \<longleftrightarrow> 85 \<le> p \<and> p < 90)
   \<and> (si_status (getAttendanceStatus p) = ''Warning'' \<longleftrightarrow> 65 \<le> p \<and> p < 75)
   \<and> (upes_row_status p = ''Warning'' \<longleftrightarrow> 65 \<le> p \<and> p < 75)
   \<and> (dynamic_row_status p = ''Warning'' \<longleftrightarrow> 65 \<le> p \<and> p < 75)
   \<and> (si_status (getAttendanceStatus p) = ''Critical'' \<longleftrightarrow> p < 65)
   \<and> (upes_row_status p = ''Critical'' \<longleftrightarrow> p < 65)
   \<and> (dynamic_row_status p = ''Critical'' \<longleftrightarrow> p < 65)"
  by (simp add: getAttendanceStatus_def upes_row_status_def dynamic_row_status_def)

text \<open>C1 as stated fails in \<open>extractRowData\<close>: 90 is at least 75 and its label is neither \<open>Safe\<close>
  nor \<open>Good\<close>.\<close>

theorem dynamic_row_status_counterexample:
  "(75::rat) \<le> 90 \<and> dynamic_row_status 90 = ''Perfect''
   \<and> dynamic_row_status 90 \<noteq> ''Safe'' \<and> dynamic_row_status 90 \<noteq> ''Good''"
  by (simp add: dynamic_row_status_def)

subsection \<open>The two summaries\<close>

lemma fl_numeral: "\<bar>numeral k :: int\<bar> < 2 ^ 53 \<Longrightarrow> fl (numeral k) = numeral k"
  using fl_of_int [of "numeral k"] by simp

lemma upes_row_Some:
  "upes_row n (Some (a, t)) (Some v)
     = \<lparr>subject = n, subjectCode = None, attended = Some a, total = Some t,
        percentage = toFixed2 (fl v), status = upes_row_status (fl v), faculty = None\<rparr>"
  by (simp add: upes_row_def Let_def)

lemma fl_74996: "fl 74.996 = 5277374338348089 / 2 ^ 46"
  using fl_eqI [of 6 "74.996" 5277374338348089] by simp

lemma toFixed2_74996: "toFixed2 (fl 74.996) = 75"
  unfolding fl_74996 by (simp add: toFixed2_def floor_rat_numeral_div fl_numeral)

lemma status_74996: "upes_row_status (fl 74.996) = ''Warning''"
  unfolding fl_74996 by (simp add: upes_row_status_def)

lemma toFixed2_75: "toFixed2 75 = 75"
  by (simp add: toFixed2_def floor_rat_numeral_div fl_numeral)

lemma fl_875: "fl 87.5 = 87.5"
  using fl_eqI [of 6 "87.5" 6157265115545600] by simp

lemma toFixed2_875: "toFixed2 87.5 = 87.5"
proof -
  have "toFixed2 87.5 = fl 87.5" by (simp add: toFixed2_def floor_rat_numeral_div)
  then show ?thesis by (simp only: fl_875)
qed

lemma toFixed2_100: "toFixed2 100 = 100"
  by (simp add: toFixed2_def floor_rat_numeral_div fl_numeral)

lemma two_subject_records:
  "map (\<lambda>(n, c, p). upes_row n c p) two_subject_rows
     = [\<lparr>subject = ''Discrete Mathematical Structures'', subjectCode = None,
         attended = Some 14, total = Some 16, percentage = 87.5, status = ''Good'',
         faculty = None\<rparr>,
        \<lparr>subject = ''Fundamentals of Clinical Research'', subjectCode = None,
         attended = Some 12, total = Some 12, percentage = 100, status = ''Good'',
         faculty = None\<rparr>]"
proof -
  have a: "fl 100 = 100" by (simp add: fl_numeral)
  have "map (\<lambda>(n, c, p). upes_row n c p) two_subject_rows
     = [upes_row ''Discrete Mathematical Structures'' (Some (14, 16)) (Some 87.5),
        upes_row ''Fundamentals of Clinical Research'' (Some (12, 12)) (Some 100)]"
    by (simp only: two_subject_rows_def list.map prod.case)
  also have "\<dots> = [\<lparr>subject = ''Discrete Mathematical Structures'', subjectCode = None,
         attended = Some 14, total = Some 16, percentage = 87.5, status = ''Good'',
         faculty = None\<rparr>,
        \<lparr>subject = ''Fundamentals of Clinical Research'', subjectCode = None,
         attended = Some 12, total = Some 12, percentage = 100, status = ''Good'',
         faculty = None\<rparr>]"
    unfolding upes_row_Some fl_875 a toFixed2_875 toFixed2_100
    by (simp add: upes_row_status_def)
  finally show ?thesis .
qed

lemma fl_1875: "fl (87.5 + 100) = 187.5"
  using fl_eqI [of 7 "87.5 + 100" 6597069766656000] by simp

lemma fl_9375: "fl (187.5 / 2) = 93.75"
  using fl_eqI [of 6 "187.5 / 2" 6597069766656000] by simp

lemma toFixed2_9375: "toFixed2 93.75 = 93.75"
proof -
  have "toFixed2 93.75 = fl (187.5 / 2)" by (simp add: toFixed2_def floor_rat_numeral_div)
  then show ?thesis by (simp only: fl_9375)
qed

lemma fl_26_28: "fl (26 / 28) = 8363827879402350 / 2 ^ 53"
  using fl_eqI [of "-1" "26 / 28" 8363827879402350] by simp

lemma fl_26_28_100: "fl (8363827879402350 / 2 ^ 53 * 100) = 6534240530783086 / 2 ^ 46"
  using fl_eqI [of 6 "8363827879402350 / 2 ^ 53 * 100" 6534240530783086] by simp

lemma toFixed2_9286: "toFixed2 (6534240530783086 / 2 ^ 46) = fl 92.86"
  by (simp add: toFixed2_def floor_rat_numeral_div)

lemma fl_9286: "fl 92.86 = 6534441584337879 / 2 ^ 46"
  using fl_eqI [of 6 "92.86" 6534441584337879] by simp

lemma foldl_add_sum_list:
  "foldl (\<lambda>sum s. sum + f s) acc xs = acc + sum_list (map f xs)" for acc :: nat
  by (induction xs arbitrary: acc) simp_all

lemma upes_overall_eq:
  "overallPercentage (upes_summary xs)
     = (if xs = [] then 0
        else toFixed2 (fl (foldl (\<lambda>sum v. fl (sum + v)) 0 (map percentage xs)
                             / of_nat (length xs))))"
  by (simp add: upes_summary_def foldl_map)

lemma dynamic_overall_eq:
  "oa_overallPercentage (calculateOverallAttendance xs)
     = (if 0 < sum_list (map (\<lambda>s. toNumber (total s)) xs)
        then toFixed2 (fl (fl (of_nat (sum_list (map (\<lambda>s. toNumber (attended s)) xs))
                                 / of_nat (sum_list (map (\<lambda>s. toNumber (total s)) xs)))
                             * 100))
        else 0)"
proof (cases "xs = []")
  case True
  then show ?thesis by (simp add: calculateOverallAttendance_def)
next
  case False
  then show ?thesis
    by (simp add: calculateOverallAttendance_def Let_def foldl_add_sum_list case_prod_beta)
qed

lemma fl_175_2: "fl (175 / 2) = 175 / 2"
  using fl_875 by simp

lemma two_subject_upes:
  "overallPercentage (upes_summary (map (\<lambda>(n, c, p). upes_row n c p) two_subject_rows)) = 93.75"
proof -
  have "overallPercentage (upes_summary (map (\<lambda>(n, c, p). upes_row n c p) two_subject_rows))
          = toFixed2 (fl (fl (87.5 + 100) / 2))"
    unfolding two_subject_records by (simp add: upes_overall_eq fl_175_2)
  also have "\<dots> = 93.75" by (simp only: fl_1875 fl_9375 toFixed2_9375)
  finally show ?thesis .
qed

lemma two_subject_dynamic:
  "oa_overallPercentage
     (calculateOverallAttendance (map (\<lambda>(n, c, p). upes_row n c p) two_subject_rows))
     = fl 92.86"
proof -
  have "oa_overallPercentage
     (calculateOverallAttendance (map (\<lambda>(n, c, p). upes_row n c p) two_subject_rows))
          = toFixed2 (fl (fl (26 / 28) * 100))"
    unfolding two_subject_records by (simp add: dynamic_overall_eq toNumber_def)
  also have "\<dots> = fl 92.86" by (simp only: fl_26_28 fl_26_28_100 toFixed2_9286)
  finally show ?thesis .
qed

text \<open>
  C5. The \<open>overallPercentage\<close> of \<open>UPESScrapingService.fetchAttendanceReport\<close> is the mean of
  the percentages (their rounded sum over their number, through \<open>toFixed(2)\<close>); the one of
  \<open>DynamicAttendanceScrapingService.calculateOverallAttendance\<close> is the sum of the attended
  classes over the sum of the total classes, times 100 (through \<open>toFixed(2)\<close>). On the two
  scraped rows \<open>14/16, 87.5%\<close> and \<open>12/12, 100%\<close> the first is 93.75 and the second is the
  double 92.86: there is an attendance list on which they differ.
\<close>

theorem overallPercentage_inconsistent:
  "overallPercentage (upes_summary xs)
     = (if xs = [] then 0
        else toFixed2 (fl (foldl (\<lambda>sum v. fl (sum + v)) 0 (map percentage xs)
                             / of_nat (length xs))))
   \<and> oa_overallPercentage (calculateOverallAttendance xs)
     = (if 0 < sum_list (map (\<lambda>s. toNumber (total s)) xs)
        then toFixed2 (fl (fl (of_nat (sum_list (map (\<lambda>s. toNumber (attended s)) xs))
                                 / of_nat (sum_list (map (\<lambda>s. toNumber (total s)) xs)))
                             * 100))
        else 0)
   \<and> overallPercentage (upes_summary (map (\<lambda>(n, c, p). upes_row n c p) two_subject_rows))
       = 93.75
   \<and> oa_overallPercentage
       (calculateOverallAttendance (map (\<lambda>(n, c, p). upes_row n c p) two_subject_rows))
       = fl 92.86
   \<and> fl 92.86 < 93.75
   \<and> (\<exists>attendanceData.
         overallPercentage (upes_summary attendanceData)
           \<noteq> oa_overallPercentage (calculateOverallAttendance attendanceData))"
proof -
  have lt: "fl 92.86 < 93.75" unfolding fl_9286 by simp
  have "overallPercentage (upes_summary (map (\<lambda>(n, c, p). upes_row n c p) two_subject_rows))
          \<noteq> oa_overallPercentage
               (calculateOverallAttendance (map (\<lambda>(n, c, p). upes_row n c p) two_subject_rows))"
    unfolding two_subject_upes two_subject_dynamic using lt by simp
  then have "\<exists>attendanceData.
         overallPercentage (upes_summary attendanceData)
           \<noteq> oa_overallPercentage (calculateOverallAttendance attendanceData)" by blast
  with lt show ?thesis
    using upes_overall_eq [of xs] dynamic_overall_eq [of xs] two_subject_upes two_subject_dynamic
    by simp
qed

text \<open>The summary of the dynamic service counts every record in exactly one bucket.\<close>

lemma calculateOverallAttendance_partition:
  "oa_safeSubjects (calculateOverallAttendance xs)
     + oa_warningSubjects (calculateOverallAttendance xs)
     + oa_criticalSubjects (calculateOverallAttendance xs)
     = oa_totalSubjects (calculateOverallAttendance xs)
   \<and> oa_totalSubjects (calculateOverallAttendance xs) = length xs"
proof -
  have "length (filter (\<lambda>s. percentage s \<ge> 75) xs)
        + length (filter (\<lambda>s. percentage s \<ge> 65 \<and> percentage s < 75) xs)
        + length (filter (\<lambda>s. percentage s < 65) xs) = length xs"
    by (induction xs) auto
  then show ?thesis
    by (simp add: calculateOverallAttendance_def Let_def split: prod.splits)
qed

text \<open>So does the summary of \<open>fetchAttendanceReport\<close> on records whose status is the one their
  stored percentage gives.\<close>

lemma upes_summary_partition_consistent:
  assumes "\<forall>a \<in> set xs. status a = upes_row_status (percentage a)"
  shows "safeSubjects (upes_summary xs) + warningSubjects (upes_summary xs)
           + criticalSubjects (upes_summary xs) = totalSubjects (upes_summary xs)"
  using assms
  by (induction xs) (auto simp add: upes_summary_def upes_row_status_def)

text \<open>
  C10 at a row that \<open>scrapeAttendanceData\<close> builds from the count text \<open>18749/25000\<close> and the
  percentage text \<open>74.996%\<close>: the status comes from 74.996 (\<open>Warning\<close>), the stored percentage
  is rounded to 75, and the summary of \<open>fetchAttendanceReport\<close> counts the one record as safe
  and as warning.
\<close>

theorem upes_summary_double_count:
  "upes_row ''Maths'' (Some (18749, 25000)) (Some 74.996)
     = \<lparr>subject = ''Maths'', subjectCode = None, attended = Some 18749, total = Some 25000,
        percentage = 75, status = ''Warning'', faculty = None\<rparr>
   \<and> upes_summary [upes_row ''Maths'' (Some (18749, 25000)) (Some 74.996)]
     = \<lparr>totalSubjects = 1, safeSubjects = 1, warningSubjects = 1, criticalSubjects = 0,
        overallPercentage = 75\<rparr>"
  unfolding upes_row_Some toFixed2_74996 status_74996
  by (simp add: upes_summary_def fl_numeral toFixed2_75)

subsection \<open>Tearing the browser down\<close>

lemma cleanup_closes_ok:
  "env_pageClose env = None \<Longrightarrow> env_browserClose env = None
   \<Longrightarrow> cleanup env s = \<lparr>browser = None, page = None\<rparr>"
  by (cases s) (simp add: cleanup_def cleanup_browser_def)

lemma fetchAttendanceReport_state:
  "snd (fetchAttendanceReport env userId password s) = cleanup env (snd (initBrowser env s))"
  by (simp add: fetchAttendanceReport_def Let_def split: prod.splits sum.splits)

text \<open>
  C6, as the code has it. On every path, returning or throwing, \<open>fetchAttendanceReport\<close> ends
  with \<open>cleanup\<close> applied to the state that \<open>initBrowser\<close> left; when neither \<open>page.close()\<close> nor
  \<open>browser.close()\<close> throws, \<open>browser\<close> and \<open>page\<close> are both \<open>null\<close> afterwards.
\<close>

theorem fetchAttendanceReport_teardown:
  "snd (fetchAttendanceReport env userId password s) = cleanup env (snd (initBrowser env s))
   \<and> (env_pageClose env = None \<and> env_browserClose env = None
        \<longrightarrow> snd (fetchAttendanceReport env userId password s)
              = \<lparr>browser = None, page = None\<rparr>)"
  using fetchAttendanceReport_state [of env userId password s]
    cleanup_closes_ok [of env "snd (initBrowser env s)"]
  by simp

text \<open>A login refused by the portal: the call throws and both handles are cleared.\<close>

theorem fetchAttendanceReport_teardown_witness:
  "env_pageClose env_rate_limited = None \<and> env_browserClose env_rate_limited = None
   \<and> fetchAttendanceReport env_rate_limited ''500012345'' ''secret'' new_service
       = (Inl ''Login failed: RATE_LIMITED: Too many login attempts. Please try again later.'',
          \<lparr>browser = None, page = None\<rparr>)"
proof -
  have c: "env_pageClose env_rate_limited = None \<and> env_browserClose env_rate_limited = None"
    by (simp add: env_rate_limited_def)
  have f: "fst (fetchAttendanceReport env_rate_limited ''500012345'' ''secret'' new_service)
        = Inl ''Login failed: RATE_LIMITED: Too many login attempts. Please try again later.''"
    by (simp add: fetchAttendanceReport_def initBrowser_def login_def env_rate_limited_def
        new_service_def Let_def)
  have "snd (fetchAttendanceReport env_rate_limited ''500012345'' ''secret'' new_service)
        = \<lparr>browser = None, page = None\<rparr>"
    using fetchAttendanceReport_teardown
      [of env_rate_limited "''500012345''" "''secret''" new_service,
        THEN conjunct2, THEN mp, OF c] .
  with c f show ?thesis by (simp add: prod_eq_iff)
qed

text \<open>C6 as stated fails when \<open>page.close()\<close> throws: the report is returned, \<open>cleanup\<close> logs the
  error, and both handles stay set.\<close>

theorem cleanup_counterexample:
  "(case fst (fetchAttendanceReport env_page_close_fails ''500012345'' ''secret'' new_service)
      of Inr report \<Rightarrow> d_success report | Inl e \<Rightarrow> False)
   \<and> snd (fetchAttendanceReport env_page_close_fails ''500012345'' ''secret'' new_service)
       = \<lparr>browser = Some 1, page = Some 2\<rparr>"
  by (simp add: fetchAttendanceReport_def initBrowser_def login_def scrapeAttendanceData_def
      cleanup_def env_page_close_fails_def new_service_def Let_def)

subsection \<open>Responses of the fetch handlers\<close>

lemma valid_request:
  assumes "rq_password req = Some pw" "pw \<noteq> []" "rq_userId req = Some uid" "uid \<noteq> []"
  shows "validateAttendanceInput (rq_password req) = []"
    and "\<not> falsy (rq_password req)" and "\<not> falsy (rq_userId req)"
  using assms by (simp_all add: validateAttendanceInput_def falsy_def)

text \<open>
  C2, as the code has it. For a request with a password and a user id, whenever the awaited
  \<open>fetchAttendanceReport\<close> throws, whatever the message, the version 3.0 handler answers 200 with
  \<open>success: true\<close> and \<open>generateFallbackData(userId, userEmail)\<close> as data; the version 1.0
  handler of \<open>backend/routes/attendance.js\<close> answers \<open>success: false\<close> without data.
\<close>

theorem fetch_v3_fallback:
  assumes "rq_password req = Some pw" "pw \<noteq> []" "rq_userId req = Some uid" "uid \<noteq> []"
  shows "r_statusCode (fetch_v3 now nowLocale req (Inl message)) = 200
       \<and> r_success (fetch_v3 now nowLocale req (Inl message)) = Some True
       \<and> r_data (fetch_v3 now nowLocale req (Inl message))
           = Some (generateFallbackData now nowLocale uid
                     (if falsy (rq_email req) then uid else the (rq_email req)))
       \<and> r_success (fetch_v1 dev now req (Inl message)) = Some False
       \<and> r_data (fetch_v1 dev now req (Inl message)) = None"
  using valid_request [OF assms] assms
  by (simp add: fetch_v3_def fetch_v1_def empty_response_def Let_def case_prod_beta)

theorem fetch_v3_fallback_witness:
  "rq_password req_student = Some ''secret'' \<and> ''secret'' \<noteq> []
   \<and> rq_userId req_student = Some ''500012345'' \<and> ''500012345'' \<noteq> []
   \<and> r_statusCode (fetch_v3 ''t'' ''l'' req_student (Inl ''Browser initialization failed'')) = 200
   \<and> r_data (fetch_v3 ''t'' ''l'' req_student (Inl ''Browser initialization failed''))
       = Some (generateFallbackData ''t'' ''l'' ''500012345'' ''500012345'')"
proof -
  have a: "rq_password req_student = Some ''secret''" "''secret'' \<noteq> []"
    "rq_userId req_student = Some ''500012345''" "''500012345'' \<noteq> []"
    by (simp_all add: req_student_def)
  have e: "(if falsy (rq_email req_student) then ''500012345'' else the (rq_email req_student))
        = ''500012345''"
    by (simp add: req_student_def falsy_def)
  show ?thesis
    using fetch_v3_fallback [OF a, of "''t''" "''l''" "''Browser initialization failed''" False] a e
    by simp
qed

text \<open>C2 as stated fails in the version 1.0 handler: without a Chrome executable the service
  throws, and the response is 503 with \<open>success: false\<close> and no data.\<close>

theorem fetch_v1_no_fallback_counterexample:
  "fst (fetchAttendanceReport env_no_chrome ''500012345'' ''secret'' new_service)
     = Inl ''Browser initialization failed''
   \<and> r_statusCode (fetch_v1 False ''2025-01-25T16:44:00.000Z'' req_student
        (fst (fetchAttendanceReport env_no_chrome ''500012345'' ''secret'' new_service))) = 503
   \<and> r_success (fetch_v1 False ''2025-01-25T16:44:00.000Z'' req_student
        (fst (fetchAttendanceReport env_no_chrome ''500012345'' ''secret'' new_service)))
       = Some False
   \<and> r_data (fetch_v1 False ''2025-01-25T16:44:00.000Z'' req_student
        (fst (fetchAttendanceReport env_no_chrome ''500012345'' ''secret'' new_service))) = None"
proof -
  have f: "fst (fetchAttendanceReport env_no_chrome ''500012345'' ''secret'' new_service)
        = Inl ''Browser initialization failed''"
    by (simp add: fetchAttendanceReport_def initBrowser_def env_no_chrome_def
        new_service_def Let_def)
  show ?thesis
    unfolding f
    by (simp add: fetch_v1_def error_mapping_v1_def req_student_def validateAttendanceInput_def
        falsy_def empty_response_def Let_def)
qed

lemma error_mapping_v1_status:
  "fst (error_mapping_v1 m) =
     (if sublist ''Login failed'' m \<or> sublist ''credentials'' m then 401
      else if sublist ''RATE_LIMITED'' m \<or> sublist ''too many login attempts'' m then 429
      else if sublist ''timeout'' m \<or> sublist ''Network'' m then 504
      else if sublist ''Browser'' m \<or> sublist ''puppeteer'' m then 503
      else if sublist ''No attendance data found'' m then 404
      else 500)"
  unfolding error_mapping_v1_def str_includes_sublist by simp

text \<open>The status code of the version 1.0 handler as the cascade of its \<open>catch\<close> block gives it:
  the first test that the message passes decides.\<close>

lemma fetch_v1_error_status:
  assumes "rq_password req = Some pw" "pw \<noteq> []" "rq_userId req = Some uid" "uid \<noteq> []"
  shows "r_success (fetch_v1 dev now req (Inl m)) = Some False
       \<and> r_statusCode (fetch_v1 dev now req (Inl m)) =
           (if sublist ''Login failed'' m \<or> sublist ''credentials'' m then 401
            else if sublist ''RATE_LIMITED'' m \<or> sublist ''too many login attempts'' m then 429
            else if sublist ''timeout'' m \<or> sublist ''Network'' m then 504
            else if sublist ''Browser'' m \<or> sublist ''puppeteer'' m then 503
            else if sublist ''No attendance data found'' m then 404
            else 500)"
proof -
  have "r_statusCode (fetch_v1 dev now req (Inl m)) = fst (error_mapping_v1 m)"
    using valid_request [OF assms]
    by (simp add: fetch_v1_def empty_response_def Let_def split: prod.splits)
  moreover have "r_success (fetch_v1 dev now req (Inl m)) = Some False"
    using valid_request [OF assms]
    by (simp add: fetch_v1_def empty_response_def Let_def split: prod.splits)
  ultimately show ?thesis using error_mapping_v1_status [of m] by simp
qed

text \<open>
  C3 on a rate-limited login. \<open>login\<close> sees the rate-limit text of the portal and throws
  \<open>RATE_LIMITED: ...\<close>, its own \<open>catch\<close> rethrows that as \<open>Login failed: RATE_LIMITED: ...\<close>, and
  the handler answers 401 with \<open>INVALID_CREDENTIALS\<close>, although the message contains
  \<open>RATE_LIMITED\<close>; the message as \<open>login\<close> first threw it would get 429.
\<close>

theorem rate_limited_login_status:
  "fst (fetchAttendanceReport env_rate_limited ''500012345'' ''secret'' new_service)
     = Inl ''Login failed: RATE_LIMITED: Too many login attempts. Please try again later.''
   \<and> str_includes ''Login failed: RATE_LIMITED: Too many login attempts. Please try again later.''
        ''RATE_LIMITED''
   \<and> r_statusCode (fetch_v1 False ''2025-01-25T16:44:00.000Z'' req_student
        (Inl ''Login failed: RATE_LIMITED: Too many login attempts. Please try again later.''))
       = 401
   \<and> r_code (fetch_v1 False ''2025-01-25T16:44:00.000Z'' req_student
        (Inl ''Login failed: RATE_LIMITED: Too many login attempts. Please try again later.''))
       = Some ''INVALID_CREDENTIALS''
   \<and> r_statusCode (fetch_v1 False ''2025-01-25T16:44:00.000Z'' req_student
        (Inl ''RATE_LIMITED: Too many login attempts. Please try again later.'')) = 429"
  by (simp add: fetchAttendanceReport_def initBrowser_def login_def env_rate_limited_def
        new_service_def Let_def fetch_v1_def error_mapping_v1_def req_student_def
        validateAttendanceInput_def falsy_def empty_response_def)










subsection \<open>Login\<close>

lemma userid_char_not_space: "userid_char c \<Longrightarrow> \<not> is_js_space c"
  by (auto simp add: userid_char_def is_js_space_def Let_def)

lemma trim_no_space:
  assumes "list_all (\<lambda>c. \<not> is_js_space c) s"
  shows "trim s = s"
proof (cases s rule: rev_cases)
  case Nil
  then show ?thesis by (simp add: trim_def)
next
  case (snoc ys y)
  with assms have h: "s \<noteq> []" "\<not> is_js_space (hd s)" "\<not> is_js_space y"
    by (cases ys; simp)+
  from h(1,2) have "dropWhile is_js_space s = s" by (cases s) simp_all
  then show ?thesis using snoc h(3) by (simp add: trim_def)
qed

lemma trim_userid:
  assumes "list_all userid_char uid"
  shows "trim uid = uid"
proof -
  from assms have "list_all (\<lambda>c. \<not> is_js_space c) uid"
    by (induction uid) (simp_all add: userid_char_not_space)
  then show ?thesis by (rule trim_no_space)
qed

text \<open>
  C8, as the code has it. For a user id of 1 to 50 characters from \<open>[a-zA-Z0-9._@-]\<close> and a
  password with at least one character that is not white space, the handler answers 200 with
  \<open>success: true\<close> and the token that \<open>generateToken\<close> returns for a payload whose \<open>userId\<close> is
  the trimmed, lower-cased user id, provided \<open>generateToken\<close> returns. The response does not
  mention the password: no credential is verified at login.
\<close>

theorem login_route_accepts:
  assumes "1 \<le> length uid" "length uid \<le> 50" "list_all userid_char uid"
    and "trim pw \<noteq> []"
    and "generateToken
           \<lparr>tp_userId = toLowerCase (trim uid), tp_email = toLowerCase (trim uid),
            tp_loginTime = lc_loginTime clk,
            tp_sessionId = ''session_'' @ string_of_nat (lc_sessionTime clk) @ ''_''
                             @ lc_random clk\<rparr> = Inr token"
  shows "login_route generateToken clk \<lparr>lb_userId = Some uid, lb_password = Some pw\<rparr>
         = \<lparr>l_statusCode = 200, l_success = Some True,
            l_message = Some ''Login credentials validated'', l_token = Some token,
            l_user = Some (toLowerCase (trim uid), lc_iso clk), l_error = None,
            l_code = None, l_details = None\<rparr>"
proof -
  have t: "trim uid = uid" using assms(3) by (rule trim_userid)
  have ne: "uid \<noteq> []" using assms(1) by auto
  have pne: "pw \<noteq> []" using assms(4) by (auto simp add: trim_def)
  have v: "validateLoginInput \<lparr>lb_userId = Some uid, lb_password = Some pw\<rparr> = ([], uid)"
    using assms(1-3) t ne pne by (simp add: validateLoginInput_def Let_def)
  have l: "toLowerCase uid \<noteq> []" using ne by (simp add: toLowerCase_def)
  show ?thesis
    using v t l assms(4,5) by (simp add: login_route_def Let_def)
qed

theorem login_route_accepts_witness:
  "1 \<le> length ''Student.01@UPES'' \<and> length ''Student.01@UPES'' \<le> 50
   \<and> list_all userid_char ''Student.01@UPES'' \<and> trim ''secret'' \<noteq> []
   \<and> login_route Inr clock_sample \<lparr>lb_userId = Some ''Student.01@UPES'', lb_password = Some ''secret''\<rparr>
       = \<lparr>l_statusCode = 200, l_success = Some True,
          l_message = Some ''Login credentials validated'',
          l_token = Some \<lparr>tp_userId = ''student.01@upes'', tp_email = ''student.01@upes'',
                           tp_loginTime = 1737823440000,
                           tp_sessionId = ''session_1737823440000_k3j9x2m1q''\<rparr>,
          l_user = Some (''student.01@upes'', ''2025-01-25T16:44:00.000Z''), l_error = None,
          l_code = None, l_details = None\<rparr>"
proof -
  have a: "1 \<le> length ''Student.01@UPES''" "length ''Student.01@UPES'' \<le> 50"
    "list_all userid_char ''Student.01@UPES''" "trim ''secret'' \<noteq> []"
    by (simp_all add: userid_char_def trim_def is_js_space_def Let_def)
  have lo: "toLowerCase (trim ''Student.01@UPES'') = ''student.01@upes''"
    by (simp add: toLowerCase_def trim_def is_js_space_def lower_char_def Let_def char_of_def bit_Suc_0_iff)
  have sn: "string_of_nat 1737823440000 = ''1737823440000''"
    by (simp add: string_of_nat.simps digit_char_def char_of_def bit_Suc_0_iff)
  show ?thesis
    using login_route_accepts [OF a, of Inr clock_sample, OF refl] a lo sn
    by (simp add: clock_sample_def)
qed

text \<open>C8 as stated fails for a password that is one space: it is not empty, yet the handler
  answers 400 without a token, while another password gives 200.\<close>

theorem blank_password_counterexample:
  "'' '' \<noteq> []
   \<and> l_statusCode (login_route Inr clock_sample
        \<lparr>lb_userId = Some ''student1'', lb_password = Some '' ''\<rparr>) = 400
   \<and> l_token (login_route Inr clock_sample
        \<lparr>lb_userId = Some ''student1'', lb_password = Some '' ''\<rparr>)
       = (None :: token_payload option)
   \<and> l_statusCode (login_route Inr clock_sample
        \<lparr>lb_userId = Some ''student1'', lb_password = Some ''secret''\<rparr>) = 200"
  by (simp add: login_route_def validateLoginInput_def trim_def is_js_space_def userid_char_def
      toLowerCase_def lower_char_def Let_def)

end
